theory Spec2Isabelle
  imports Main
begin

section \<open>Python values\<close>

text \<open>
  A Python \<open>str\<close> is modelled as a \<open>string\<close> whose characters are the code points
  below 256. Values that come out of a JSON decoder are \<open>json\<close> terms: \<open>JNull\<close> is
  Python's \<open>None\<close>, an object is a dictionary kept as an association list that is
  read with \<open>map_of\<close>. JSON numbers with a fraction or an exponent (Python floats)
  are left out. The Webhook Relay, which passes text from a JSON body on to the
  shell, reads the strings inside its JSON values differently; its section says
  how.
\<close>

datatype json =
    JNull
  | JBool bool
  | JInt int
  | JStr string
  | JList "json list"
  | JObj "(string \<times> json) list"

text \<open>The exceptions of \<open>requests.exceptions\<close>; all derive from \<open>RequestException\<close>
  (\<open>JSONDecodeError\<close> does since requests 2.27).\<close>

datatype requests_exception =
    ConnectionError
  | Timeout
  | HTTPError nat
  | InvalidJSON

datatype py_error =
    RequestException requests_exception
  | AttributeError
  | TypeError
  | ValueError
  | RecursionError
  | OverflowError
  | MemoryError
  | JSONDecodeError
  | UnicodeDecodeError
  | UnicodeEncodeError
  | SystemExit nat

text \<open>\<open>bool(v)\<close>: the truth value Python gives a decoded JSON value.\<close>

fun truthy :: "json \<Rightarrow> bool" where
  "truthy JNull = False"
| "truthy (JBool b) = b"
| "truthy (JInt i) = (i \<noteq> 0)"
| "truthy (JStr s) = (s \<noteq> [])"
| "truthy (JList xs) = (xs \<noteq> [])"
| "truthy (JObj kvs) = (kvs \<noteq> [])"

text \<open>\<open>d.get(key)\<close> and \<open>d.get(key, default)\<close>: only a dictionary has the method.\<close>

fun dict_get :: "json \<Rightarrow> string \<Rightarrow> json \<Rightarrow> py_error + json" where
  "dict_get (JObj kvs) k dflt = Inr (case map_of kvs k of None \<Rightarrow> dflt | Some v \<Rightarrow> v)"
| "dict_get _ k dflt = Inl AttributeError"

section \<open>String operations\<close>

text \<open>The characters \<open>str.strip()\<close> removes, among the code points below 256.\<close>

definition py_isspace :: "char \<Rightarrow> bool" where
  "py_isspace c = ((of_char c :: nat) \<in> {9, 10, 11, 12, 13, 28, 29, 30, 31, 32, 133, 160})"

definition lstrip :: "string \<Rightarrow> string" where
  "lstrip s = dropWhile py_isspace s"

definition rstrip :: "string \<Rightarrow> string" where
  "rstrip s = rev (dropWhile py_isspace (rev s))"

definition strip :: "string \<Rightarrow> string" where
  "strip s = rstrip (lstrip s)"

text \<open>\<open>s.rstrip('/')\<close>.\<close>

definition rstrip_char :: "char \<Rightarrow> string \<Rightarrow> string" where
  "rstrip_char c s = rev (dropWhile (\<lambda>x. x = c) (rev s))"

text \<open>\<open>s.startswith(p)\<close>.\<close>

definition startswith :: "string \<Rightarrow> string \<Rightarrow> bool" where
  "startswith s p = (take (length p) s = p)"

text \<open>\<open>s.split(c, 1)\<close> for a string \<open>s\<close> that contains the character \<open>c\<close>:
  the text before the first \<open>c\<close> and the text after it.\<close>

definition split_once :: "char \<Rightarrow> string \<Rightarrow> string \<times> string" where
  "split_once c s = (takeWhile (\<lambda>x. x \<noteq> c) s, tl (dropWhile (\<lambda>x. x \<noteq> c) s))"

text \<open>\<open>s.split(c)\<close> for a one-character separator: never an empty list.\<close>

fun split_on :: "char \<Rightarrow> string \<Rightarrow> string list" where
  "split_on c [] = [[]]"
| "split_on c (x # xs) =
     (if x = c then [] # split_on c xs
      else (case split_on c xs of
              [] \<Rightarrow> [[x]]
            | w # ws \<Rightarrow> (x # w) # ws))"

text \<open>\<open>s.replace(old, new)\<close>: every occurrence, left to right, without overlap.
  The source only replaces a non-empty \<open>old\<close>.\<close>

fun replace_str :: "string \<Rightarrow> string \<Rightarrow> string \<Rightarrow> string" where
  "replace_str old new [] = (if old = [] then new else [])"
| "replace_str old new (x # xs) =
     (if old = [] then new @ x # replace_str old new xs
      else if take (length old) (x # xs) = old
        then new @ replace_str old new (drop (length old) (x # xs))
      else x # replace_str old new xs)"

text \<open>
  \<open>int(s)\<close> on a string, \<open>None\<close> standing for \<open>ValueError\<close>. The text may be
  surrounded by whitespace, has an optional sign, then decimal digits with single
  underscores between them. The whitespace of \<open>int\<close> is not that of \<open>strip\<close>:
  among the code points below 256 it is the tab, the line feed, the vertical tab,
  the form feed, the carriage return and the space, and the two characters U+0085
  and U+00A0; the separators U+001C to U+001F are refused. A text with more than
  4300 digits is refused as well (the default limit of Python 3.11, and of the
  security releases of 3.7 to 3.10).
\<close>

definition int_isspace :: "char \<Rightarrow> bool" where
  "int_isspace c = ((of_char c :: nat) \<in> {9, 10, 11, 12, 13, 32, 133, 160})"

definition is_digit :: "char \<Rightarrow> bool" where
  "is_digit c = (48 \<le> (of_char c :: nat) \<and> (of_char c :: nat) \<le> 57)"

fun digits_value :: "nat \<Rightarrow> string \<Rightarrow> nat option" where
  "digits_value acc [] = Some acc"
| "digits_value acc (c # cs) =
     (if is_digit c then digits_value (10 * acc + (of_char c - 48)) cs
      else if c = CHR ''_'' \<and> cs \<noteq> [] \<and> is_digit (hd cs) then digits_value acc cs
      else None)"

definition py_int :: "string \<Rightarrow> int option" where
  "py_int s =
     (let t = rev (dropWhile int_isspace (rev (dropWhile int_isspace s)));
          neg = (t \<noteq> [] \<and> hd t = CHR ''-'');
          body = (if t \<noteq> [] \<and> (hd t = CHR ''-'' \<or> hd t = CHR ''+'') then tl t else t)
      in if body = [] \<or> \<not> is_digit (hd body) \<or> 4300 < length (filter is_digit body) then None
         else (case digits_value 0 body of
                 None \<Rightarrow> None
               | Some n \<Rightarrow> Some (if neg then - int n else int n)))"

section \<open>Environment Loader\<close>

type_synonym env = "string \<rightharpoonup> string"

text \<open>The body of the loop of \<open>load_env\<close>, on one line as the file iterator yields it.\<close>

definition load_line :: "env \<Rightarrow> string \<Rightarrow> env" where
  "load_line env_vars raw =
     (let line = strip raw
      in if line \<noteq> [] \<and> \<not> startswith line ''#'' \<and> CHR ''='' \<in> set line
         then (case split_once CHR ''='' line of
                 (key, val) \<Rightarrow> env_vars(strip key \<mapsto> strip val))
         else env_vars)"

text \<open>\<open>load_env\<close>: the argument is the content of \<open>.env\<close> as its list of lines,
  \<open>None\<close> when the file does not exist (the source then calls \<open>sys.exit(1)\<close>).\<close>

definition load_env :: "string list option \<Rightarrow> py_error + env" where
  "load_env env_file =
     (case env_file of
        None \<Rightarrow> Inl (SystemExit 1)
      | Some lines \<Rightarrow> Inr (foldl load_line Map.empty lines))"


section \<open>The network\<close>

text \<open>
  A \<open>request\<close> is one call of \<open>session.get\<close>, \<open>session.post\<close> or \<open>session.put\<close>
  as the source makes it: the method, the URL, the headers put on the session, the
  \<open>json=\<close> argument and the \<open>timeout=\<close> argument. What the library does for the
  call lies outside the source and is a parameter of the model: a \<open>network\<close> gives
  the outcome of a call, given the calls made before it, and the time the call
  took in milliseconds. The outcome is either the exception of \<open>requests\<close> that the
  call raises (also when nothing was sent, as for a header the library refuses),
  or the response that the call returns: the last one, when the library followed
  redirects (following a redirect never turns a GET into a POST or a PUT). A
  response carries its status code and what \<open>resp.json()\<close> does on its
  body: it returns a value (\<open>Some\<close>), it raises the \<open>JSONDecodeError\<close> of \<open>requests\<close>
  because the body is not JSON (\<open>None\<close>), or the decoder gives up on a body that
  is JSON with another exception, which \<open>resp.json()\<close> hands on as it is
  (\<open>BadBody\<close>): \<open>ValueError\<close> for an integer of more digits than \<open>int\<close> takes,
  \<open>RecursionError\<close> for nesting beyond the recursion limit. The \<open>world\<close> holds
  the calls made so far and the clock that \<open>time.time()\<close> reads. Console output
  is not modelled: every \<open>print\<close> is taken to succeed.
\<close>

datatype http_method = GET | POST | PUT

record request =
  req_method :: http_method
  req_url :: string
  req_headers :: "(string \<times> string) list"
  req_json :: "json option"
  req_timeout :: nat

datatype decoder_fault = IntTooLong | TooDeep

fun fault_error :: "decoder_fault \<Rightarrow> py_error" where
  "fault_error IntTooLong = ValueError"
| "fault_error TooDeep = RecursionError"

datatype response =
    Response (status_code: nat) "json option"
  | BadBody (status_code: nat) decoder_fault

type_synonym network = "request list \<Rightarrow> request \<Rightarrow> (requests_exception + response) \<times> nat"

record world =
  sent :: "request list"
  now :: nat

definition session_request ::
  "network \<Rightarrow> request \<Rightarrow> world \<Rightarrow> (requests_exception + response) \<times> world" where
  "session_request net r w =
     (case net (sent w) r of
        (reply, dt) \<Rightarrow> (reply, \<lparr>sent = sent w @ [r], now = now w + dt\<rparr>))"

text \<open>\<open>time.sleep(secs)\<close>.\<close>

definition sleep :: "nat \<Rightarrow> world \<Rightarrow> world" where
  "sleep secs w = w\<lparr>now := now w + 1000 * secs\<rparr>"

text \<open>\<open>resp.raise_for_status()\<close> raises \<open>HTTPError\<close> for the client and server error
  codes, 400 to 599, and for nothing else.\<close>

definition raise_for_status :: "response \<Rightarrow> py_error + unit" where
  "raise_for_status resp =
     (if 400 \<le> status_code resp \<and> status_code resp < 600
      then Inl (RequestException (HTTPError (status_code resp)))
      else Inr ())"

text \<open>\<open>resp.json()\<close>.\<close>

fun resp_json :: "response \<Rightarrow> py_error + json" where
  "resp_json (Response st None) = Inl (RequestException InvalidJSON)"
| "resp_json (Response st (Some j)) = Inr j"
| "resp_json (BadBody st f) = Inl (fault_error f)"

section \<open>API Client\<close>

record arr_app =
  name :: string
  url :: string
  api_key :: "string option"

text \<open>\<open>ArrApp.__init__\<close>, and the headers it puts on the session.\<close>

definition ArrApp :: "string \<Rightarrow> string \<Rightarrow> string option \<Rightarrow> arr_app" where
  "ArrApp nm u k = \<lparr>name = nm, url = rstrip_char CHR ''/'' u, api_key = k\<rparr>"

definition session_headers :: "arr_app \<Rightarrow> (string \<times> string) list" where
  "session_headers app =
     [(''X-Api-Key'', (case api_key app of None \<Rightarrow> [] | Some k \<Rightarrow> k)),
      (''Content-Type'', ''application/json'')]"

definition api_request :: "arr_app \<Rightarrow> http_method \<Rightarrow> string \<Rightarrow> json option \<Rightarrow> request" where
  "api_request app m endpoint data =
     \<lparr>req_method = m, req_url = url app @ ''/api/v3/'' @ endpoint,
      req_headers = session_headers app, req_json = data, req_timeout = 10\<rparr>"

text \<open>The \<open>try\<close> block that \<open>get\<close>, \<open>post\<close> and \<open>put\<close> share: send, \<open>raise_for_status\<close>,
  \<open>json\<close>.\<close>

definition try_request ::
  "network \<Rightarrow> arr_app \<Rightarrow> http_method \<Rightarrow> string \<Rightarrow> json option \<Rightarrow> world
     \<Rightarrow> (py_error + json) \<times> world" where
  "try_request net app m endpoint data w =
     (case session_request net (api_request app m endpoint data) w of
        (Inl e, w') \<Rightarrow> (Inl (RequestException e), w')
      | (Inr resp, w') \<Rightarrow>
          (case raise_for_status resp of
             Inl e \<Rightarrow> (Inl e, w')
           | Inr _ \<Rightarrow> (resp_json resp, w')))"

text \<open>\<open>except requests.exceptions.RequestException: return None\<close>; any other
  exception goes on to the caller.\<close>

fun except_RequestException :: "(py_error + json) \<times> world \<Rightarrow> (py_error + json) \<times> world" where
  "except_RequestException (Inl (RequestException e), w) = (Inr JNull, w)"
| "except_RequestException (r, w) = (r, w)"

definition get :: "network \<Rightarrow> arr_app \<Rightarrow> string \<Rightarrow> world \<Rightarrow> (py_error + json) \<times> world" where
  "get net app endpoint w = except_RequestException (try_request net app GET endpoint None w)"

definition post ::
  "network \<Rightarrow> arr_app \<Rightarrow> string \<Rightarrow> json \<Rightarrow> world \<Rightarrow> (py_error + json) \<times> world" where
  "post net app endpoint data w =
     except_RequestException (try_request net app POST endpoint (Some data) w)"


section \<open>Readiness Prober\<close>

definition status_request :: "arr_app \<Rightarrow> request" where
  "status_request app =
     \<lparr>req_method = GET, req_url = url app @ ''/api/v3/system/status'',
      req_headers = session_headers app, req_json = None, req_timeout = 5\<rparr>"

text \<open>The \<open>while\<close> loop of \<open>wait_for_ready\<close>; \<open>timeout\<close> is in seconds, the clock in
  milliseconds. Every round ends in a sleep of two seconds, so the loop ends.\<close>

function wait_loop :: "network \<Rightarrow> arr_app \<Rightarrow> nat \<Rightarrow> nat \<Rightarrow> world \<Rightarrow> bool \<times> world" where
  "wait_loop net app timeout start w =
     (if now w - start < 1000 * timeout
      then (case session_request net (status_request app) w of
              (Inl e, w') \<Rightarrow> wait_loop net app timeout start (sleep 2 w')
            | (Inr resp, w') \<Rightarrow>
                if status_code resp = 200 then (True, w')
                else wait_loop net app timeout start (sleep 2 w'))
      else (False, w))"
  by pat_completeness auto
termination
  by (relation "measure (\<lambda>(net, app, timeout, start, w). start + 1000 * timeout - now w)")
     (auto simp: session_request_def sleep_def split: prod.splits)

definition wait_for_ready :: "network \<Rightarrow> arr_app \<Rightarrow> nat \<Rightarrow> world \<Rightarrow> bool \<times> world" where
  "wait_for_ready net app timeout w = wait_loop net app timeout (now w) w"


section \<open>Idempotent Configurator\<close>

text \<open>\<open>for x in v\<close>: the elements Python iterates over, \<open>TypeError\<close> when \<open>v\<close> is
  not iterable. A dictionary yields its keys, a string its characters.\<close>

fun py_iter :: "json \<Rightarrow> py_error + json list" where
  "py_iter (JList xs) = Inr xs"
| "py_iter (JObj kvs) = Inr (map JStr (remdups (map fst kvs)))"
| "py_iter (JStr s) = Inr (map (\<lambda>c. JStr [c]) s)"
| "py_iter _ = Inl TypeError"

text \<open>The loop \<open>for x in xs: if x.get(key) == target: return True\<close>; \<open>Inr False\<close>
  when it runs to its end.\<close>

fun scan :: "string \<Rightarrow> string \<Rightarrow> json list \<Rightarrow> py_error + bool" where
  "scan key target [] = Inr False"
| "scan key target (x # xs) =
     (case dict_get x key JNull of
        Inl e \<Rightarrow> Inl e
      | Inr v \<Rightarrow> if v = JStr target then Inr True else scan key target xs)"

text \<open>The guarded loop \<open>if coll: for x in coll: ...\<close> that opens each operation.\<close>

definition already_present :: "string \<Rightarrow> string \<Rightarrow> json \<Rightarrow> py_error + bool" where
  "already_present key target coll =
     (if truthy coll
      then (case py_iter coll of
              Inl e \<Rightarrow> Inl e
            | Inr xs \<Rightarrow> scan key target xs)
      else Inr False)"

definition field :: "string \<Rightarrow> json \<Rightarrow> json" where
  "field n v = JObj [(''name'', JStr n), (''value'', v)]"

text \<open>The dictionary \<open>client_config\<close>; \<open>int\<close> raises \<open>ValueError\<close> when the text after
  the last colon of \<open>rdt_url\<close> is not a number.\<close>

definition client_config :: "string \<Rightarrow> string \<Rightarrow> py_error + json" where
  "client_config rdt_url category =
     (case py_int (last (split_on CHR '':'' rdt_url)) of
        None \<Rightarrow> Inl ValueError
      | Some port \<Rightarrow>
          Inr (JObj
            [(''enable'', JBool True),
             (''protocol'', JStr ''torrent''),
             (''priority'', JInt 1),
             (''removeCompletedDownloads'', JBool True),
             (''removeFailedDownloads'', JBool True),
             (''name'', JStr ''RdtClient''),
             (''fields'', JList
                [field ''host'' (JStr (hd (split_on CHR '':'' (replace_str ''http://'' [] rdt_url)))),
                 field ''port'' (JInt port),
                 field ''useSsl'' (JBool False),
                 field ''urlBase'' (JStr []),
                 field ''username'' (JStr []),
                 field ''password'' (JStr []),
                 field ''category'' (JStr category),
                 field ''postImportCategory'' (JStr []),
                 field ''recentPriority'' (JInt 0),
                 field ''olderPriority'' (JInt 0),
                 field ''initialState'' (JInt 0),
                 field ''sequentialOrder'' (JBool False),
                 field ''firstAndLast'' (JBool False)]),
             (''implementationName'', JStr ''qBittorrent''),
             (''implementation'', JStr ''QBittorrent''),
             (''configContract'', JStr ''QBittorrentSettings''),
             (''tags'', JList [])]))"

definition add_download_client ::
  "network \<Rightarrow> arr_app \<Rightarrow> string \<Rightarrow> string \<Rightarrow> world \<Rightarrow> (py_error + bool) \<times> world" where
  "add_download_client net app rdt_url category w =
     (case get net app ''downloadclient'' w of
        (Inl e, w1) \<Rightarrow> (Inl e, w1)
      | (Inr clients, w1) \<Rightarrow>
          (case already_present ''name'' ''RdtClient'' clients of
             Inl e \<Rightarrow> (Inl e, w1)
           | Inr True \<Rightarrow> (Inr True, w1)
           | Inr False \<Rightarrow>
               (case client_config rdt_url category of
                  Inl e \<Rightarrow> (Inl e, w1)
                | Inr cfg \<Rightarrow>
                    (case post net app ''downloadclient'' cfg w1 of
                       (Inl e, w2) \<Rightarrow> (Inl e, w2)
                     | (Inr result, w2) \<Rightarrow> (Inr (truthy result), w2)))))"

definition add_root_folder ::
  "network \<Rightarrow> arr_app \<Rightarrow> string \<Rightarrow> world \<Rightarrow> (py_error + bool) \<times> world" where
  "add_root_folder net app path w =
     (case get net app ''rootfolder'' w of
        (Inl e, w1) \<Rightarrow> (Inl e, w1)
      | (Inr folders, w1) \<Rightarrow>
          (case already_present ''path'' path folders of
             Inl e \<Rightarrow> (Inl e, w1)
           | Inr True \<Rightarrow> (Inr True, w1)
           | Inr False \<Rightarrow>
               (case post net app ''rootfolder'' (JObj [(''path'', JStr path)]) w1 of
                  (Inl e, w2) \<Rightarrow> (Inl e, w2)
                | (Inr result, w2) \<Rightarrow> (Inr (truthy result), w2))))"

definition mapping_config :: "string \<Rightarrow> string \<Rightarrow> string \<Rightarrow> json" where
  "mapping_config host remote_path local_path =
     JObj [(''host'', JStr host), (''remotePath'', JStr remote_path),
           (''localPath'', JStr local_path)]"

definition add_remote_path_mapping ::
  "network \<Rightarrow> arr_app \<Rightarrow> string \<Rightarrow> string \<Rightarrow> string \<Rightarrow> world
     \<Rightarrow> (py_error + bool) \<times> world" where
  "add_remote_path_mapping net app host remote_path local_path w =
     (case get net app ''remotePathMapping'' w of
        (Inl e, w1) \<Rightarrow> (Inl e, w1)
      | (Inr mappings, w1) \<Rightarrow>
          (case already_present ''host'' host mappings of
             Inl e \<Rightarrow> (Inl e, w1)
           | Inr True \<Rightarrow> (Inr True, w1)
           | Inr False \<Rightarrow>
               (case post net app ''remotePathMapping''
                       (mapping_config host remote_path local_path) w1 of
                  (Inl e, w2) \<Rightarrow> (Inl e, w2)
                | (Inr result, w2) \<Rightarrow> (Inr (truthy result), w2))))"

section \<open>Orchestration Driver\<close>

text \<open>\<open>env.get(key)\<close> followed by \<open>if not api_key\<close>: a missing and an empty key are
  both refused.\<close>

definition valid_key :: "env \<Rightarrow> string \<Rightarrow> bool" where
  "valid_key env k = (case env k of None \<Rightarrow> False | Some v \<Rightarrow> v \<noteq> [])"

definition configure_sonarr ::
  "network \<Rightarrow> env \<Rightarrow> bool \<Rightarrow> world \<Rightarrow> (py_error + bool) \<times> world" where
  "configure_sonarr net env dry_run w =
     (if \<not> valid_key env ''SONARR_API_KEY'' then (Inr False, w)
      else let sonarr = ArrApp ''Sonarr'' ''http://localhost:8989'' (env ''SONARR_API_KEY'')
        in (case wait_for_ready net sonarr 60 w of
              (False, w1) \<Rightarrow> (Inr False, w1)
            | (True, w1) \<Rightarrow>
                if dry_run then (Inr True, w1)
                else (case add_download_client net sonarr ''http://rdtclient:6500'' ''sonarr'' w1 of
                  (Inl e, w2) \<Rightarrow> (Inl e, w2)
                | (Inr _, w2) \<Rightarrow>
                (case add_root_folder net sonarr ''/tv'' w2 of
                  (Inl e, w3) \<Rightarrow> (Inl e, w3)
                | (Inr _, w3) \<Rightarrow>
                (case add_remote_path_mapping net sonarr ''rdtclient''
                        ''/data/downloads'' ''/data/downloads'' w3 of
                  (Inl e, w4) \<Rightarrow> (Inl e, w4)
                | (Inr _, w4) \<Rightarrow> (Inr True, w4))))))"

definition configure_radarr ::
  "network \<Rightarrow> env \<Rightarrow> bool \<Rightarrow> world \<Rightarrow> (py_error + bool) \<times> world" where
  "configure_radarr net env dry_run w =
     (if \<not> valid_key env ''RADARR_API_KEY'' then (Inr False, w)
      else let radarr = ArrApp ''Radarr'' ''http://localhost:7878'' (env ''RADARR_API_KEY'')
        in (case wait_for_ready net radarr 60 w of
              (False, w1) \<Rightarrow> (Inr False, w1)
            | (True, w1) \<Rightarrow>
                if dry_run then (Inr True, w1)
                else (case add_download_client net radarr ''http://rdtclient:6500'' ''radarr'' w1 of
                  (Inl e, w2) \<Rightarrow> (Inl e, w2)
                | (Inr _, w2) \<Rightarrow>
                (case add_root_folder net radarr ''/movies'' w2 of
                  (Inl e, w3) \<Rightarrow> (Inl e, w3)
                | (Inr _, w3) \<Rightarrow>
                (case add_remote_path_mapping net radarr ''rdtclient''
                        ''/data/downloads'' ''/data/downloads'' w3 of
                  (Inl e, w4) \<Rightarrow> (Inl e, w4)
                | (Inr _, w4) \<Rightarrow> (Inr True, w4))))))"

definition configure_prowlarr ::
  "network \<Rightarrow> env \<Rightarrow> bool \<Rightarrow> world \<Rightarrow> (py_error + bool) \<times> world" where
  "configure_prowlarr net env dry_run w =
     (if \<not> valid_key env ''PROWLARR_API_KEY'' then (Inr False, w)
      else let prowlarr = ArrApp ''Prowlarr'' ''http://localhost:9696'' (env ''PROWLARR_API_KEY'')
        in (case wait_for_ready net prowlarr 60 w of
              (False, w1) \<Rightarrow> (Inr False, w1)
            | (True, w1) \<Rightarrow> (Inr True, w1)))"

text \<open>The parsed command line: \<open>--dry-run\<close>, \<open>--verbose\<close> and \<open>--app\<close>.\<close>

datatype app_choice = Sonarr | Radarr | Prowlarr | All

record args =
  args_dry_run :: bool
  args_verbose :: bool
  args_app :: app_choice

text \<open>A step of \<open>main\<close>: a service that is not selected leaves \<open>success\<close> as it is.\<close>

definition selected :: "args \<Rightarrow> app_choice \<Rightarrow> bool" where
  "selected a c = (args_app a = c \<or> args_app a = All)"

text \<open>\<open>main\<close>: \<open>Inr ()\<close> when it returns, \<open>Inl (SystemExit 1)\<close> for \<open>sys.exit(1)\<close>, any
  other \<open>Inl\<close> for an exception nothing catches.\<close>

definition main ::
  "network \<Rightarrow> args \<Rightarrow> string list option \<Rightarrow> world \<Rightarrow> (py_error + unit) \<times> world" where
  "main net a env_file w =
     (case load_env env_file of
        Inl e \<Rightarrow> (Inl e, w)
      | Inr env \<Rightarrow>
     (case (if selected a Sonarr then configure_sonarr net env (args_dry_run a) w
            else (Inr True, w)) of
        (Inl e, w1) \<Rightarrow> (Inl e, w1)
      | (Inr ok1, w1) \<Rightarrow>
     (case (if selected a Radarr then configure_radarr net env (args_dry_run a) w1
            else (Inr True, w1)) of
        (Inl e, w2) \<Rightarrow> (Inl e, w2)
      | (Inr ok2, w2) \<Rightarrow>
     (case (if selected a Prowlarr then configure_prowlarr net env (args_dry_run a) w2
            else (Inr True, w2)) of
        (Inl e, w3) \<Rightarrow> (Inl e, w3)
      | (Inr ok3, w3) \<Rightarrow>
          if ok1 \<and> ok2 \<and> ok3 then (Inr (), w3) else (Inl (SystemExit 1), w3)))))"

text \<open>The exit status of the process: 0 when \<open>main\<close> returns, the argument of
  \<open>sys.exit\<close>, and 1 after an uncaught exception.\<close>

fun exit_code :: "py_error + unit \<Rightarrow> nat" where
  "exit_code (Inr _) = 0"
| "exit_code (Inl (SystemExit n)) = n"
| "exit_code (Inl _) = 1"

section \<open>Webhook Relay\<close>

text \<open>
  A POST as the handler sees it: the value of the \<open>Content-Length\<close> header when
  there is one (a string of code points below 256, as \<open>http.server\<close> decodes
  headers), and \<open>rfile\<close>, which gives for a length what \<open>self.rfile.read\<close> does with
  it: the bytes it returns, or the exception it raises (\<open>ValueError\<close> for a length
  below -1, \<open>OverflowError\<close> or \<open>MemoryError\<close> for a length too large).

  A string inside the decoded body is only compared with a key, tested for
  emptiness and put into the command line, so here it is held as the bytes of its
  UTF-8 encoding, a surrogate encoded like any other code point: every Python
  string, whatever its code points, is one such \<open>string\<close>.

  Three library functions are parameters, each giving its result or the exception
  it raises: \<open>decode_json\<close> is \<open>json.loads\<close> after \<open>bytes.decode\<close>; \<open>str_of\<close> is \<open>str\<close>
  on a value that is not a string; \<open>os_system\<close> is \<open>os.system\<close>, which returns the
  exit status of the shell, or raises without running anything (\<open>ValueError\<close>
  for a command line with a NUL character, \<open>UnicodeEncodeError\<close> for one that the
  file system encoding cannot encode). The result of the handler is the response
  it writes, or the exception that ended it before it wrote any, beside the shell
  commands run with their exit statuses.
\<close>

record post_request =
  content_length :: "string option"
  rfile :: "int \<Rightarrow> py_error + string"

record http_response =
  status :: nat
  body :: string

text \<open>The value an f-string puts in place of \<open>{v}\<close>.\<close>

definition format_value :: "(json \<Rightarrow> py_error + string) \<Rightarrow> json \<Rightarrow> py_error + string" where
  "format_value str_of v = (case v of JStr s \<Rightarrow> Inr s | _ \<Rightarrow> str_of v)"

definition alert_command :: "string \<Rightarrow> string" where
  "alert_command title =
     ''bash scripts/phase2/send_alert.sh info \"Media Ready\" \"'' @ title @ '' is ready to watch!\"''"

text \<open>\<open>data.get('series', {}).get('title') or data.get('movie', {}).get('title', 'Unknown')\<close>.\<close>

definition extract_title :: "json \<Rightarrow> py_error + json" where
  "extract_title data =
     (case dict_get data ''series'' (JObj []) of
        Inl e \<Rightarrow> Inl e
      | Inr series \<Rightarrow>
     (case dict_get series ''title'' JNull of
        Inl e \<Rightarrow> Inl e
      | Inr t \<Rightarrow>
          if truthy t then Inr t
          else (case dict_get data ''movie'' (JObj []) of
                  Inl e \<Rightarrow> Inl e
                | Inr movie \<Rightarrow> dict_get movie ''title'' (JStr ''Unknown''))))"

definition do_POST ::
  "(string \<Rightarrow> py_error + json) \<Rightarrow> (json \<Rightarrow> py_error + string) \<Rightarrow> (string \<Rightarrow> py_error + int)
     \<Rightarrow> post_request \<Rightarrow> (py_error + http_response) \<times> (string \<times> int) list" where
  "do_POST decode_json str_of os_system request =
     (case (case content_length request of None \<Rightarrow> Some 0 | Some h \<Rightarrow> py_int h) of
        None \<Rightarrow> (Inl ValueError, [])
      | Some len \<Rightarrow>
     (case rfile request len of
        Inl e \<Rightarrow> (Inl e, [])
      | Inr raw \<Rightarrow>
     (case decode_json raw of
        Inl e \<Rightarrow> (Inl e, [])
      | Inr data \<Rightarrow>
     (case dict_get data ''eventType'' (JStr ''Unknown'') of
        Inl e \<Rightarrow> (Inl e, [])
      | Inr event_type \<Rightarrow>
     (case extract_title data of
        Inl e \<Rightarrow> (Inl e, [])
      | Inr series \<Rightarrow>
     (case format_value str_of series of
        Inl e \<Rightarrow> (Inl e, [])
      | Inr title \<Rightarrow>
     (case os_system (alert_command title) of
        Inl e \<Rightarrow> (Inl e, [])
      | Inr exit_status \<Rightarrow>
          (Inr \<lparr>status = 200, body = []\<rparr>, [(alert_command title, exit_status)]))))))))"

section \<open>Notions used to state the properties\<close>

text \<open>The Environment Loader in the words of its description: a line counts when,
  once stripped, it is not empty and does not start with \<open>#\<close>, and it contains \<open>=\<close>;
  its key and value are the stripped texts before and after the first \<open>=\<close>; the
  last line that counts for a key gives its value.\<close>

definition assignment_line :: "string \<Rightarrow> bool" where
  "assignment_line raw =
     (strip raw \<noteq> [] \<and> \<not> startswith (strip raw) ''#'' \<and> CHR ''='' \<in> set raw)"

definition key_of :: "string \<Rightarrow> string" where
  "key_of raw = strip (takeWhile (\<lambda>x. x \<noteq> CHR ''='') raw)"

definition value_of :: "string \<Rightarrow> string" where
  "value_of raw = strip (tl (dropWhile (\<lambda>x. x \<noteq> CHR ''='') raw))"

definition env_spec :: "string list \<Rightarrow> env" where
  "env_spec lines k =
     (let hits = filter (\<lambda>l. assignment_line l \<and> key_of l = k) lines
      in if hits = [] then None else Some (value_of (last hits)))"

definition lookup_env :: "py_error + env \<Rightarrow> string \<Rightarrow> string option" where
  "lookup_env r k = (case r of Inl e \<Rightarrow> None | Inr m \<Rightarrow> m k)"

text \<open>What a call of the API Client does with the outcome of its call of the
  session: it returns the sentinel \<open>JNull\<close> for an exception of \<open>requests\<close>, for a
  status from 400 to 599 and for a body that is not JSON; otherwise it returns
  the decoded body, or raises what the decoder raised.\<close>

definition api_result_spec :: "requests_exception + response \<Rightarrow> py_error + json" where
  "api_result_spec reply =
     (case reply of
        Inl e \<Rightarrow> Inr JNull
      | Inr resp \<Rightarrow>
          if 400 \<le> status_code resp \<and> status_code resp < 600 then Inr JNull
          else (case resp of
                  Response st None \<Rightarrow> Inr JNull
                | Response st (Some j) \<Rightarrow> Inr j
                | BadBody st f \<Rightarrow> Inl (fault_error f)))"



text \<open>The creation step that ends each operation of the Configurator: the POST of
  the body, and the truth value of its result as the report.\<close>

definition create ::
  "network \<Rightarrow> arr_app \<Rightarrow> string \<Rightarrow> json \<Rightarrow> world \<Rightarrow> (py_error + bool) \<times> world" where
  "create net app ep data w =
     (case post net app ep data w of
        (Inl e, w') \<Rightarrow> (Inl e, w')
      | (Inr result, w') \<Rightarrow> (Inr (truthy result), w'))"

text \<open>The world after one more request.\<close>

definition after_request :: "network \<Rightarrow> request \<Rightarrow> world \<Rightarrow> world" where
  "after_request net r w = \<lparr>sent = sent w @ [r], now = now w + snd (net (sent w) r)\<rparr>"

text \<open>The requests sent between two worlds.\<close>

definition new_requests :: "world \<Rightarrow> world \<Rightarrow> request list" where
  "new_requests w w' = drop (length (sent w)) (sent w')"

text \<open>The world \<open>w'\<close> is the world \<open>w\<close> after some more requests, all of them GETs.\<close>

definition only_gets :: "world \<Rightarrow> world \<Rightarrow> bool" where
  "only_gets w w' = (\<exists>rs. sent w' = sent w @ rs \<and> list_all (\<lambda>r. req_method r = GET) rs)"

fun is_dict :: "json \<Rightarrow> bool" where
  "is_dict (JObj kvs) = True"
| "is_dict _ = False"

text \<open>The reply of the network to the creation POST that an operation sends after
  its GET.\<close>

definition creation_reply ::
  "network \<Rightarrow> arr_app \<Rightarrow> string \<Rightarrow> json \<Rightarrow> world \<Rightarrow> requests_exception + response" where
  "creation_reply net app ep data w =
     fst (net (sent (snd (get net app ep w))) (api_request app POST ep (Some data)))"

text \<open>Repeated invocations of \<open>add_download_client\<close>, one after the other on the same
  service, whatever each of them returns.\<close>

definition rerun_add_download_client ::
  "nat \<Rightarrow> network \<Rightarrow> arr_app \<Rightarrow> string \<Rightarrow> string \<Rightarrow> world \<Rightarrow> world" where
  "rerun_add_download_client n net app rdt_url category w =
     ((\<lambda>v. snd (add_download_client net app rdt_url category v)) ^^ n) w"

text \<open>The number of download clients created by the requests \<open>rs\<close> sent after the
  requests \<open>log\<close>: the creation POSTs among them that the service answered with a
  2xx status.\<close>

definition is_creation :: "arr_app \<Rightarrow> request \<Rightarrow> bool" where
  "is_creation app r =
     (req_method r = POST \<and> req_url r = url app @ ''/api/v3/downloadclient'')"

definition accepted :: "network \<Rightarrow> request list \<Rightarrow> request \<Rightarrow> bool" where
  "accepted net log r =
     (case fst (net log r) of
        Inl e \<Rightarrow> False
      | Inr resp \<Rightarrow> 200 \<le> status_code resp \<and> status_code resp < 300)"

fun creations :: "network \<Rightarrow> arr_app \<Rightarrow> request list \<Rightarrow> request list \<Rightarrow> nat" where
  "creations net app log [] = 0"
| "creations net app log (r # rs) =
     (if is_creation app r \<and> accepted net log r then 1 else 0)
       + creations net app (log @ [r]) rs"

text \<open>A reply that lists a download client named \<open>RdtClient\<close>, and a service that
  gives such a reply to the GET of its download clients once one has been created
  after the world \<open>w\<close>.\<close>

definition lists_rdtclient :: "requests_exception + response \<Rightarrow> bool" where
  "lists_rdtclient reply =
     (case reply of
        Inr (Response st (Some (JList xs))) \<Rightarrow>
          \<not> (400 \<le> st \<and> st < 600) \<and> list_all is_dict xs
            \<and> list_ex (\<lambda>x. dict_get x ''name'' JNull = Inr (JStr ''RdtClient'')) xs
      | _ \<Rightarrow> False)"

definition shows_created :: "network \<Rightarrow> arr_app \<Rightarrow> world \<Rightarrow> bool" where
  "shows_created net app w =
     (\<forall>rs. 0 < creations net app (sent w) rs \<longrightarrow>
        lists_rdtclient (fst (net (sent w @ rs) (api_request app GET ''downloadclient'' None))))"

section \<open>Example services\<close>

definition w0 :: world where
  "w0 = \<lparr>sent = [], now = 0\<rparr>"

definition sonarr_app :: arr_app where
  "sonarr_app = ArrApp ''Sonarr'' ''http://localhost:8989'' (Some ''abc123'')"


text \<open>A service that already holds a download client and a path mapping, the
  mapping with paths other than the ones asked for.\<close>

definition net_configured :: network where
  "net_configured log r =
     (Inr (Response 200 (Some (JList
        [JObj [(''id'', JInt 1), (''name'', JStr ''RdtClient''), (''host'', JStr ''rdtclient''),
               (''remotePath'', JStr ''/old''), (''localPath'', JStr ''/elsewhere'')]]))), 35)"



text \<open>A service that cannot be reached.\<close>

definition net_down :: network where
  "net_down log r = (Inl ConnectionError, 0)"

text \<open>A service that holds nothing and answers a creation with status 201 and an
  empty JSON object.\<close>

definition net_empty_reply :: network where
  "net_empty_reply log r =
     (if req_method r = GET then (Inr (Response 200 (Some (JList []))), 12)
      else (Inr (Response 201 (Some (JObj []))), 40))"

text \<open>The download client that \<open>configure_sonarr\<close> asks for.\<close>

definition sonarr_client_config :: json where
  "sonarr_client_config =
     JObj
       [(''enable'', JBool True),
        (''protocol'', JStr ''torrent''),
        (''priority'', JInt 1),
        (''removeCompletedDownloads'', JBool True),
        (''removeFailedDownloads'', JBool True),
        (''name'', JStr ''RdtClient''),
        (''fields'', JList
           [field ''host'' (JStr ''rdtclient''),
            field ''port'' (JInt 6500),
            field ''useSsl'' (JBool False),
            field ''urlBase'' (JStr []),
            field ''username'' (JStr []),
            field ''password'' (JStr []),
            field ''category'' (JStr ''sonarr''),
            field ''postImportCategory'' (JStr []),
            field ''recentPriority'' (JInt 0),
            field ''olderPriority'' (JInt 0),
            field ''initialState'' (JInt 0),
            field ''sequentialOrder'' (JBool False),
            field ''firstAndLast'' (JBool False)]),
        (''implementationName'', JStr ''qBittorrent''),
        (''implementation'', JStr ''QBittorrent''),
        (''configContract'', JStr ''QBittorrentSettings''),
        (''tags'', JList [])]"

text \<open>A service that holds no download client until one is posted, and lists a
  client named \<open>RdtClient\<close> from then on.\<close>

definition net_store :: network where
  "net_store log r =
     (if req_method r = GET
      then (if list_ex (\<lambda>p. req_method p = POST) log
            then (Inr (Response 200 (Some (JList [JObj [(''id'', JInt 1), (''name'', JStr ''RdtClient'')]]))), 15)
            else (Inr (Response 200 (Some (JList []))), 15))
      else (Inr (Response 201 (Some (JObj [(''id'', JInt 1), (''name'', JStr ''RdtClient'')]))), 30))"

text \<open>Services that answer their status endpoint and nothing else.\<close>

definition net_ready_only :: network where
  "net_ready_only log r =
     (if req_method r = GET \<and>
         (req_url r = ''http://localhost:8989/api/v3/system/status''
          \<or> req_url r = ''http://localhost:7878/api/v3/system/status''
          \<or> req_url r = ''http://localhost:9696/api/v3/system/status'')
      then (Inr (Response 200 (Some (JObj [(''version'', JStr ''4.0'')]))), 20)
      else (Inl ConnectionError, 3))"

definition sample_env_file :: "string list" where
  "sample_env_file =
     [''# API keys'', ''SONARR_API_KEY=abc123'', ''RADARR_API_KEY = def456'',
      ''PROWLARR_API_KEY=ghi789'']"

definition sample_env :: env where
  "sample_env =
     [''SONARR_API_KEY'' \<mapsto> ''abc123'', ''RADARR_API_KEY'' \<mapsto> ''def456'',
      ''PROWLARR_API_KEY'' \<mapsto> ''ghi789'']"

definition sonarr_run :: args where
  "sonarr_run = \<lparr>args_dry_run = False, args_verbose = False, args_app = Sonarr\<rparr>"

definition sonarr_dry_run :: args where
  "sonarr_dry_run = \<lparr>args_dry_run = True, args_verbose = False, args_app = Sonarr\<rparr>"

text \<open>The worlds that the run of \<open>main\<close> on this service goes through.\<close>

definition w_ready :: world where
  "w_ready = snd (wait_for_ready net_ready_only sonarr_app 60 w0)"

definition w_client :: world where
  "w_client = snd (add_download_client net_ready_only sonarr_app ''http://rdtclient:6500'' ''sonarr'' w_ready)"

definition w_folder :: world where
  "w_folder = snd (add_root_folder net_ready_only sonarr_app ''/tv'' w_client)"

definition w_mapping :: world where
  "w_mapping = snd (add_remote_path_mapping net_ready_only sonarr_app ''rdtclient''
                      ''/data/downloads'' ''/data/downloads'' w_folder)"

section \<open>Notions used to state the properties of the Webhook Relay\<close>

text \<open>In a decoded body, the title under a key is the value of \<open>title\<close> in the
  object stored under that key; a body has a title there when that value is
  truthy.\<close>

definition title_under :: "(string \<times> json) list \<Rightarrow> string \<Rightarrow> json option" where
  "title_under kvs k = (case map_of kvs k of Some (JObj d) \<Rightarrow> map_of d ''title'' | _ \<Rightarrow> None)"

definition has_title :: "(string \<times> json) list \<Rightarrow> string \<Rightarrow> bool" where
  "has_title kvs k = (case title_under kvs k of None \<Rightarrow> False | Some t \<Rightarrow> truthy t)"

definition object_or_absent :: "(string \<times> json) list \<Rightarrow> string \<Rightarrow> bool" where
  "object_or_absent kvs k = (case map_of kvs k of None \<Rightarrow> True | Some v \<Rightarrow> is_dict v)"

text \<open>The body of a request as the handler gets it: \<open>int\<close> on the \<open>Content-Length\<close>
  header (0 without one), then \<open>rfile.read\<close> of that length.\<close>

definition declared_length :: "post_request \<Rightarrow> int option" where
  "declared_length request =
     (case content_length request of None \<Rightarrow> Some 0 | Some h \<Rightarrow> py_int h)"

definition request_body :: "post_request \<Rightarrow> py_error + string" where
  "request_body request =
     (case declared_length request of
        None \<Rightarrow> Inl ValueError
      | Some len \<Rightarrow> rfile request len)"

text \<open>The shell commands that a run of the handler executed.\<close>

definition alerts :: "(py_error + http_response) \<times> (string \<times> int) list \<Rightarrow> string list" where
  "alerts r = map fst (snd r)"

section \<open>Example webhook requests\<close>

definition body_show_a :: string where
  \<open>body_show_a = ''{"eventType":"Download","series":{"title":"Show A"}}''\<close>

definition body_film_b :: string where
  \<open>body_film_b = ''{"eventType":"Download","movie":{"title":"Film B"}}''\<close>

definition body_test :: string where
  \<open>body_test = ''{"eventType":"Test"}''\<close>

definition body_empty_series :: string where
  \<open>body_empty_series =
     ''{"eventType":"Download","series":{"title":""},"movie":{"title":"Film B"}}''\<close>

text \<open>A body whose series title is the JSON escape of the lone surrogate U+D800.\<close>

definition body_surrogate :: string where
  \<open>body_surrogate = ''{"series":{"title":"'' @ [CHR 0x5C] @ ''ud800"}}''\<close>

text \<open>\<open>json.loads\<close> on the request bodies of the examples: the five bodies above,
  and a body that is not JSON. The title of the last body is the one code point
  U+D800, in UTF-8 the bytes ED A0 80.\<close>

definition sample_loads :: "string \<Rightarrow> py_error + json" where
  "sample_loads raw =
     (if raw = body_show_a
        then Inr (JObj [(''eventType'', JStr ''Download''),
                        (''series'', JObj [(''title'', JStr ''Show A'')])])
      else if raw = body_film_b
        then Inr (JObj [(''eventType'', JStr ''Download''),
                        (''movie'', JObj [(''title'', JStr ''Film B'')])])
      else if raw = body_test
        then Inr (JObj [(''eventType'', JStr ''Test'')])
      else if raw = body_empty_series
        then Inr (JObj [(''eventType'', JStr ''Download''),
                        (''series'', JObj [(''title'', JStr [])]),
                        (''movie'', JObj [(''title'', JStr ''Film B'')])])
      else if raw = body_surrogate
        then Inr (JObj [(''series'', JObj [(''title'', JStr [CHR 0xED, CHR 0xA0, CHR 0x80])])])
      else Inl JSONDecodeError)"

text \<open>\<open>str\<close> on the values that are not strings, as far as the examples go.\<close>

fun sample_str :: "json \<Rightarrow> py_error + string" where
  "sample_str JNull = Inr ''None''"
| "sample_str (JBool True) = Inr ''True''"
| "sample_str (JBool False) = Inr ''False''"
| "sample_str _ = Inr []"

text \<open>\<open>rfile.read\<close> on a connection over which the client sends the given bytes and
  nothing more, on a 64-bit machine that has room for a mebibyte.\<close>

definition socket_file :: "string \<Rightarrow> int \<Rightarrow> py_error + string" where
  "socket_file bytes n =
     (if n < - (2 ^ 63) \<or> 2 ^ 63 \<le> n then Inl OverflowError
      else if n < - 1 then Inl ValueError
      else if n = - 1 then Inr bytes
      else if 2 ^ 20 < n then Inl MemoryError
      else Inr (take (nat n) bytes))"

text \<open>\<open>os.system\<close> where the file system encoding is UTF-8 and the shell ends with the
  given exit status: a surrogate other than U+DC80 to U+DCFF (in the bytes: ED,
  then a byte from A0 on other than B2 and B3) cannot be encoded, and a NUL
  character is refused.\<close>

fun has_surrogate :: "string \<Rightarrow> bool" where
  "has_surrogate (a # b # rest) =
     ((a = CHR 0xED \<and> 0xA0 \<le> (of_char b :: nat) \<and> b \<noteq> CHR 0xB2 \<and> b \<noteq> CHR 0xB3)
      \<or> has_surrogate (b # rest))"
| "has_surrogate _ = False"

definition shell_exit :: "int \<Rightarrow> string \<Rightarrow> py_error + int" where
  "shell_exit exit_status cmd =
     (if has_surrogate cmd then Inl UnicodeEncodeError
      else if CHR 0x00 \<in> set cmd then Inl ValueError
      else Inr exit_status)"

definition post_show_a :: post_request where
  "post_show_a = \<lparr>content_length = Some ''52'', rfile = socket_file body_show_a\<rparr>"

definition post_film_b :: post_request where
  "post_film_b = \<lparr>content_length = Some ''51'', rfile = socket_file body_film_b\<rparr>"

definition post_test :: post_request where
  "post_test = \<lparr>content_length = Some ''20'', rfile = socket_file body_test\<rparr>"

definition post_empty_series :: post_request where
  "post_empty_series = \<lparr>content_length = Some ''73'', rfile = socket_file body_empty_series\<rparr>"

definition post_surrogate :: post_request where
  "post_surrogate = \<lparr>content_length = Some ''29'', rfile = socket_file body_surrogate\<rparr>"

definition post_not_json :: post_request where
  "post_not_json = \<lparr>content_length = Some ''8'', rfile = socket_file ''not json''\<rparr>"

section \<open>Environment Loader: proofs\<close>

lemma lstrip_takeWhile:
  "\<not> py_isspace c \<Longrightarrow> takeWhile (\<lambda>x. x \<noteq> c) (lstrip s) = lstrip (takeWhile (\<lambda>x. x \<noteq> c) s)"
  unfolding lstrip_def by (induction s) auto

lemma lstrip_dropWhile:
  "\<not> py_isspace c \<Longrightarrow> dropWhile (\<lambda>x. x \<noteq> c) (lstrip s) = dropWhile (\<lambda>x. x \<noteq> c) s"
  unfolding lstrip_def by (induction s) auto

lemma rstrip_append_keep:
  "\<not> py_isspace c \<Longrightarrow> rstrip (a @ c # b) = a @ c # rstrip b"
  unfolding rstrip_def by (simp add: dropWhile_append)

lemma lstrip_idem: "lstrip (lstrip s) = lstrip s"
  unfolding lstrip_def by simp

lemma rstrip_all_space: "\<forall>x\<in>set s. py_isspace x \<Longrightarrow> rstrip s = []"
  unfolding rstrip_def by simp

lemma lstrip_rstrip: "lstrip (rstrip s) = rstrip (lstrip s)"
proof (cases "dropWhile py_isspace s")
  case Nil
  then have all: "\<forall>x\<in>set s. py_isspace x"
    by simp
  then show ?thesis
    by (simp add: rstrip_all_space lstrip_def Nil)
next
  case (Cons c rest)
  then have c: "\<not> py_isspace c"
    by (metis hd_dropWhile list.distinct(1) list.sel(1))
  have s: "s = takeWhile py_isspace s @ c # rest"
    using Cons by (metis takeWhile_dropWhile_id)
  have r: "rstrip s = takeWhile py_isspace s @ c # rstrip rest"
    using rstrip_append_keep [OF c, of "takeWhile py_isspace s" rest] s by simp
  have "lstrip (rstrip s) = c # rstrip rest"
  proof -
    have "\<forall>x\<in>set (takeWhile py_isspace s). py_isspace x"
      by (auto dest: set_takeWhileD)
    then have "dropWhile py_isspace (takeWhile py_isspace s) = []"
      by simp
    then show ?thesis
      using c r by (simp add: lstrip_def dropWhile_append del: dropWhile_eq_Nil_conv)
  qed
  moreover have "rstrip (lstrip s) = c # rstrip rest"
    using rstrip_append_keep [OF c, of "[]" rest] Cons by (simp add: lstrip_def)
  ultimately show ?thesis by simp
qed

lemma strip_rstrip: "strip (rstrip s) = strip s"
  by (simp add: strip_def lstrip_rstrip) (simp add: rstrip_def)

lemma strip_lstrip: "strip (lstrip s) = strip s"
  by (simp add: strip_def lstrip_idem)

lemma lstrip_mem: "\<not> py_isspace c \<Longrightarrow> c \<in> set (lstrip s) \<longleftrightarrow> c \<in> set s"
  unfolding lstrip_def by (induction s) auto

lemma rstrip_mem: "\<not> py_isspace c \<Longrightarrow> c \<in> set (rstrip s) \<longleftrightarrow> c \<in> set s"
  using lstrip_mem [of c "rev s"] by (simp add: rstrip_def lstrip_def)

lemma strip_mem: "\<not> py_isspace c \<Longrightarrow> c \<in> set (strip s) \<longleftrightarrow> c \<in> set s"
  by (simp add: strip_def rstrip_mem lstrip_mem)

lemma eq_not_space: "\<not> py_isspace CHR ''=''"
  by (simp add: py_isspace_def)

lemma split_once_strip:
  assumes "CHR ''='' \<in> set raw"
  shows "split_once CHR ''='' (strip raw) =
           (lstrip (takeWhile (\<lambda>x. x \<noteq> CHR ''='') raw),
            rstrip (tl (dropWhile (\<lambda>x. x \<noteq> CHR ''='') raw)))"
proof -
  let ?ne = "\<lambda>x. x \<noteq> CHR ''=''"
  let ?a = "lstrip (takeWhile ?ne raw)"
  let ?b = "tl (dropWhile ?ne raw)"
  have dw: "dropWhile ?ne raw = CHR ''='' # ?b"
  proof (cases "dropWhile ?ne raw")
    case Nil
    then have "\<forall>x\<in>set raw. x \<noteq> CHR ''=''" by simp
    then show ?thesis using assms by blast
  next
    case (Cons c rest)
    then have "c = CHR ''=''"
      using hd_dropWhile [of ?ne raw] by simp
    then show ?thesis using Cons by simp
  qed
  have "lstrip raw = takeWhile ?ne (lstrip raw) @ dropWhile ?ne (lstrip raw)"
    by simp
  then have l: "lstrip raw = ?a @ CHR ''='' # ?b"
    using dw by (simp add: lstrip_takeWhile lstrip_dropWhile eq_not_space)
  have a: "\<forall>x\<in>set ?a. x \<noteq> CHR ''=''"
    unfolding lstrip_def by (blast dest: set_dropWhileD set_takeWhileD)
  have "strip raw = ?a @ CHR ''='' # rstrip ?b"
    unfolding strip_def using l rstrip_append_keep [OF eq_not_space, of ?a ?b] by simp
  then show ?thesis
    using a by (simp add: split_once_def takeWhile_append dropWhile_append)
qed

lemma load_line_eq:
  "load_line env_vars raw =
     (if assignment_line raw then env_vars(key_of raw \<mapsto> value_of raw) else env_vars)"
proof (cases "CHR ''='' \<in> set raw")
  case True
  then show ?thesis
    by (simp add: load_line_def assignment_line_def key_of_def value_of_def Let_def
          strip_mem eq_not_space split_once_strip strip_lstrip strip_rstrip)
next
  case False
  then show ?thesis
    by (simp add: load_line_def assignment_line_def Let_def strip_mem eq_not_space)
qed

lemma foldl_load_line:
  "foldl load_line m lines k =
     (let hits = filter (\<lambda>l. assignment_line l \<and> key_of l = k) lines
      in if hits = [] then m k else Some (value_of (last hits)))"
  by (induction lines rule: rev_induct) (auto simp: load_line_eq Let_def)

lemma strip_simps:
  "strip s = rev (dropWhile py_isspace (rev (dropWhile py_isspace s)))"
  by (simp add: strip_def rstrip_def lstrip_def)

text \<open>
  C10 (as amended). For every file, \<open>load_env\<close> returns the mapping that sends a key
  to the value of the last line that counts for it: a line counts when, once its
  surrounding whitespace is stripped, it is not empty and does not start with \<open>#\<close>,
  and it contains \<open>=\<close>; key and value are the texts before and after the first \<open>=\<close>
  with surrounding whitespace stripped. Lines without \<open>=\<close> never count, and a
  later line for the same key overwrites the earlier value.
\<close>

theorem load_env_spec: "load_env (Some lines) = Inr (env_spec lines)"
  by (simp add: load_env_def env_spec_def fun_eq_iff foldl_load_line Let_def)

theorem load_env_spec_witness:
  "load_env (Some [''# keys'', ''A = 1'', ''no equals sign'', '' A=2 '', ''B=x=y''])
     = Inr (env_spec [''# keys'', ''A = 1'', ''no equals sign'', '' A=2 '', ''B=x=y''])
   \<and> env_spec [''# keys'', ''A = 1'', ''no equals sign'', '' A=2 '', ''B=x=y''] ''A'' = Some ''2''
   \<and> env_spec [''# keys'', ''A = 1'', ''no equals sign'', '' A=2 '', ''B=x=y''] ''B'' = Some ''x=y''"
  using load_env_spec [of "[''# keys'', ''A = 1'', ''no equals sign'', '' A=2 '', ''B=x=y'']"]
  by (simp add: env_spec_def assignment_line_def key_of_def value_of_def strip_simps
        startswith_def py_isspace_def)

text \<open>
  C10 as it is written fails on an indented comment: the line \<open>''  #K=v''\<close> is not
  blank, does not start with \<open>#\<close> and contains \<open>=\<close>, and the text before its first
  \<open>=\<close>, stripped, is \<open>#K\<close>; yet the loader gives \<open>#K\<close> no value, because it strips
  the line before it looks for the \<open>#\<close>.
\<close>

theorem load_env_indented_comment_counterexample:
  "strip ''  #K=v'' \<noteq> [] \<and> \<not> startswith ''  #K=v'' ''#'' \<and> CHR ''='' \<in> set ''  #K=v''
   \<and> strip (fst (split_once CHR ''='' ''  #K=v'')) = ''#K''
   \<and> lookup_env (load_env (Some [''  #K=v''])) ''#K'' = None"
  by (simp add: load_env_def load_line_def lookup_env_def split_once_def strip_simps
        startswith_def py_isspace_def)

section \<open>API Client: proofs\<close>

lemma api_call_eq:
  "except_RequestException (try_request net app m ep data w) =
     (api_result_spec (fst (net (sent w) (api_request app m ep data))),
      after_request net (api_request app m ep data) w)"
proof (cases "net (sent w) (api_request app m ep data)")
  case (Pair reply dt)
  show ?thesis
  proof (cases reply)
    case (Inl e)
    with Pair show ?thesis
      by (simp add: try_request_def session_request_def api_result_spec_def after_request_def)
  next
    case (Inr resp)
    show ?thesis
    proof (cases resp)
      case (Response st b)
      with Pair Inr show ?thesis
        by (cases b)
           (simp_all add: try_request_def session_request_def raise_for_status_def
              api_result_spec_def after_request_def)
    next
      case (BadBody st f)
      with Pair Inr show ?thesis
        by (cases f)
           (simp_all add: try_request_def session_request_def raise_for_status_def
              api_result_spec_def after_request_def)
    qed
  qed
qed

lemma get_eq:
  "get net app ep w =
     (api_result_spec (fst (net (sent w) (api_request app GET ep None))),
      after_request net (api_request app GET ep None) w)"
  by (simp add: get_def api_call_eq)

lemma post_eq:
  "post net app ep d w =
     (api_result_spec (fst (net (sent w) (api_request app POST ep (Some d)))),
      after_request net (api_request app POST ep (Some d)) w)"
  by (simp add: post_def api_call_eq)







section \<open>Idempotent Configurator: proofs\<close>

lemma sonarr_client_config_eq:
  "client_config ''http://rdtclient:6500'' ''sonarr'' = Inr sonarr_client_config"
  by (simp add: client_config_def sonarr_client_config_def py_int_def int_isspace_def
        is_digit_def)

lemma scan_found:
  "list_all is_dict xs \<Longrightarrow> \<exists>x\<in>set xs. dict_get x key JNull = Inr (JStr target)
     \<Longrightarrow> scan key target xs = Inr True"
proof (induction xs)
  case Nil
  then show ?case by simp
next
  case (Cons x xs)
  then obtain kvs where x: "x = JObj kvs"
    by (cases x) auto
  show ?case
  proof (cases "dict_get x key JNull = Inr (JStr target)")
    case True
    then show ?thesis by simp
  next
    case False
    with Cons have "scan key target xs = Inr True" by auto
    with False show ?thesis by (auto simp: x)
  qed
qed

lemma already_present_found:
  assumes "list_all is_dict xs" and "\<exists>x\<in>set xs. dict_get x key JNull = Inr (JStr target)"
  shows "already_present key target (JList xs) = Inr True"
proof -
  have "xs \<noteq> []" using assms(2) by auto
  then show ?thesis
    using scan_found [OF assms] by (simp add: already_present_def)
qed

lemma already_present_absent:
  "coll = JNull \<or> coll = JList [] \<Longrightarrow> already_present key target coll = Inr False"
  by (auto simp: already_present_def)

text \<open>The creation step, and each operation, unfolded into the outcomes of the
  calls.\<close>

lemma create_eq:
  "create net app ep data w =
     (case api_result_spec (fst (net (sent w) (api_request app POST ep (Some data)))) of
        Inl e \<Rightarrow> (Inl e, after_request net (api_request app POST ep (Some data)) w)
      | Inr result \<Rightarrow>
          (Inr (truthy result), after_request net (api_request app POST ep (Some data)) w))"
  by (simp add: create_def post_eq split: sum.splits)

lemma snd_create:
  "snd (create net app ep data w) = after_request net (api_request app POST ep (Some data)) w"
  by (simp add: create_eq split: sum.splits)

lemma add_download_client_eq:
  "add_download_client net app rdt_url category w =
     (let g = api_request app GET ''downloadclient'' None;
          w1 = after_request net g w
      in case api_result_spec (fst (net (sent w) g)) of
           Inl e \<Rightarrow> (Inl e, w1)
         | Inr clients \<Rightarrow>
        (case already_present ''name'' ''RdtClient'' clients of
           Inl e \<Rightarrow> (Inl e, w1)
         | Inr True \<Rightarrow> (Inr True, w1)
         | Inr False \<Rightarrow>
             (case client_config rdt_url category of
                Inl e \<Rightarrow> (Inl e, w1)
              | Inr cfg \<Rightarrow> create net app ''downloadclient'' cfg w1)))"
  by (simp add: add_download_client_def get_eq create_def Let_def
        split: sum.splits bool.splits prod.splits)

lemma add_root_folder_eq:
  "add_root_folder net app path w =
     (let g = api_request app GET ''rootfolder'' None;
          w1 = after_request net g w
      in case api_result_spec (fst (net (sent w) g)) of
           Inl e \<Rightarrow> (Inl e, w1)
         | Inr folders \<Rightarrow>
        (case already_present ''path'' path folders of
           Inl e \<Rightarrow> (Inl e, w1)
         | Inr True \<Rightarrow> (Inr True, w1)
         | Inr False \<Rightarrow> create net app ''rootfolder'' (JObj [(''path'', JStr path)]) w1))"
  by (simp add: add_root_folder_def get_eq create_def Let_def
        split: sum.splits bool.splits prod.splits)

lemma add_remote_path_mapping_eq:
  "add_remote_path_mapping net app host remote_path local_path w =
     (let g = api_request app GET ''remotePathMapping'' None;
          w1 = after_request net g w
      in case api_result_spec (fst (net (sent w) g)) of
           Inl e \<Rightarrow> (Inl e, w1)
         | Inr mappings \<Rightarrow>
        (case already_present ''host'' host mappings of
           Inl e \<Rightarrow> (Inl e, w1)
         | Inr True \<Rightarrow> (Inr True, w1)
         | Inr False \<Rightarrow>
             create net app ''remotePathMapping''
               (mapping_config host remote_path local_path) w1))"
  by (simp add: add_remote_path_mapping_def get_eq create_def Let_def
        split: sum.splits bool.splits prod.splits)

lemma fst_get: "fst (get net app ep w) = api_result_spec (fst (net (sent w) (api_request app GET ep None)))"
  by (simp add: get_eq)

lemma snd_get: "snd (get net app ep w) = after_request net (api_request app GET ep None) w"
  by (simp add: get_eq)

text \<open>
  C3. Whenever the collection of remote path mappings fetched from the service is
  a list of objects with at least one entry whose \<open>host\<close> equals the target host,
  \<open>add_remote_path_mapping\<close> reports success and the GET is the only request it
  sends: no creation POST. Nothing is asked of the entry's \<open>remotePath\<close> and
  \<open>localPath\<close>.
\<close>

theorem remote_path_mapping_host_only:
  assumes "fst (get net app ''remotePathMapping'' w) = Inr (JList mappings)"
    and "list_all is_dict mappings"
    and "\<exists>m\<in>set mappings. dict_get m ''host'' JNull = Inr (JStr host)"
  shows "fst (add_remote_path_mapping net app host remote_path local_path w) = Inr True \<and>
         new_requests w (snd (add_remote_path_mapping net app host remote_path local_path w))
           = [api_request app GET ''remotePathMapping'' None]"
proof -
  have "already_present ''host'' host (JList mappings) = Inr True"
    using assms(2,3) by (rule already_present_found)
  then show ?thesis
    using assms(1)
    by (simp add: add_remote_path_mapping_eq fst_get Let_def after_request_def new_requests_def)
qed

theorem remote_path_mapping_host_only_witness:
  "fst (get net_configured sonarr_app ''remotePathMapping'' w0) =
     Inr (JList [JObj [(''id'', JInt 1), (''name'', JStr ''RdtClient''), (''host'', JStr ''rdtclient''),
               (''remotePath'', JStr ''/old''), (''localPath'', JStr ''/elsewhere'')]])
   \<and> fst (add_remote_path_mapping net_configured sonarr_app ''rdtclient''
            ''/data/downloads'' ''/data/downloads'' w0) = Inr True
   \<and> new_requests w0 (snd (add_remote_path_mapping net_configured sonarr_app ''rdtclient''
            ''/data/downloads'' ''/data/downloads'' w0))
       = [api_request sonarr_app GET ''remotePathMapping'' None]"
proof -
  let ?xs = "[JObj [(''id'', JInt 1), (''name'', JStr ''RdtClient''), (''host'', JStr ''rdtclient''),
               (''remotePath'', JStr ''/old''), (''localPath'', JStr ''/elsewhere'')]]"
  have g: "fst (get net_configured sonarr_app ''remotePathMapping'' w0) = Inr (JList ?xs)"
    by (simp add: fst_get net_configured_def api_result_spec_def)
  have d: "list_all is_dict ?xs" by simp
  have h: "\<exists>m\<in>set ?xs. dict_get m ''host'' JNull = Inr (JStr ''rdtclient'')" by simp
  show ?thesis
    using g remote_path_mapping_host_only [OF g d h, of "''/data/downloads''" "''/data/downloads''"]
    by simp
qed

lemma add_download_client_absent:
  assumes "fst (get net app ''downloadclient'' w) \<in> {Inr JNull, Inr (JList [])}"
    and "client_config rdt_url category = Inr cfg"
  shows "add_download_client net app rdt_url category w
           = create net app ''downloadclient'' cfg (snd (get net app ''downloadclient'' w))
         \<and> new_requests w (snd (add_download_client net app rdt_url category w))
           = [api_request app GET ''downloadclient'' None,
              api_request app POST ''downloadclient'' (Some cfg)]"
proof -
  from assms(1) obtain coll where c: "fst (get net app ''downloadclient'' w) = Inr coll"
    and "coll = JNull \<or> coll = JList []" by auto
  then have a: "already_present ''name'' ''RdtClient'' coll = Inr False"
    by (simp add: already_present_absent)
  have e: "add_download_client net app rdt_url category w
      = create net app ''downloadclient'' cfg (snd (get net app ''downloadclient'' w))"
    using c a assms(2) by (simp add: add_download_client_eq fst_get snd_get Let_def)
  show ?thesis
    by (simp add: e snd_create snd_get new_requests_def after_request_def)
qed

lemma add_root_folder_absent:
  assumes "fst (get net app ''rootfolder'' w) \<in> {Inr JNull, Inr (JList [])}"
  shows "add_root_folder net app path w
           = create net app ''rootfolder'' (JObj [(''path'', JStr path)])
               (snd (get net app ''rootfolder'' w))
         \<and> new_requests w (snd (add_root_folder net app path w))
           = [api_request app GET ''rootfolder'' None,
              api_request app POST ''rootfolder'' (Some (JObj [(''path'', JStr path)]))]"
proof -
  from assms(1) obtain coll where c: "fst (get net app ''rootfolder'' w) = Inr coll"
    and "coll = JNull \<or> coll = JList []" by auto
  then have a: "already_present ''path'' path coll = Inr False"
    by (simp add: already_present_absent)
  have e: "add_root_folder net app path w
      = create net app ''rootfolder'' (JObj [(''path'', JStr path)])
          (snd (get net app ''rootfolder'' w))"
    using c a by (simp add: add_root_folder_eq fst_get snd_get Let_def)
  show ?thesis
    by (simp add: e snd_create snd_get new_requests_def after_request_def)
qed

lemma add_remote_path_mapping_absent:
  assumes "fst (get net app ''remotePathMapping'' w) \<in> {Inr JNull, Inr (JList [])}"
  shows "add_remote_path_mapping net app host remote_path local_path w
           = create net app ''remotePathMapping'' (mapping_config host remote_path local_path)
               (snd (get net app ''remotePathMapping'' w))
         \<and> new_requests w (snd (add_remote_path_mapping net app host remote_path local_path w))
           = [api_request app GET ''remotePathMapping'' None,
              api_request app POST ''remotePathMapping''
                (Some (mapping_config host remote_path local_path))]"
proof -
  from assms(1) obtain coll where c: "fst (get net app ''remotePathMapping'' w) = Inr coll"
    and "coll = JNull \<or> coll = JList []" by auto
  then have a: "already_present ''host'' host coll = Inr False"
    by (simp add: already_present_absent)
  have e: "add_remote_path_mapping net app host remote_path local_path w
      = create net app ''remotePathMapping'' (mapping_config host remote_path local_path)
          (snd (get net app ''remotePathMapping'' w))"
    using c a by (simp add: add_remote_path_mapping_eq fst_get snd_get Let_def)
  show ?thesis
    by (simp add: e snd_create snd_get new_requests_def after_request_def)
qed

text \<open>
  C5. Whenever the initial GET returns the failure sentinel, each of the three
  operations does what it does for an empty collection: it goes on to its
  creation step, the POST of the full body (for the download client, once
  \<open>int\<close> has read the port in \<open>rdt_url\<close>), and ends as that step ends. The GET and
  the POST are the two calls it makes; the fetch failure is not raised.
\<close>

theorem fetch_failure_treated_as_absent:
  "(fst (get net app ''downloadclient'' w) \<in> {Inr JNull, Inr (JList [])}
      \<and> client_config rdt_url category = Inr cfg \<longrightarrow>
      add_download_client net app rdt_url category w
        = create net app ''downloadclient'' cfg (snd (get net app ''downloadclient'' w))
      \<and> new_requests w (snd (add_download_client net app rdt_url category w))
        = [api_request app GET ''downloadclient'' None,
           api_request app POST ''downloadclient'' (Some cfg)])
   \<and> (fst (get net app ''rootfolder'' w) \<in> {Inr JNull, Inr (JList [])} \<longrightarrow>
      add_root_folder net app path w
        = create net app ''rootfolder'' (JObj [(''path'', JStr path)])
            (snd (get net app ''rootfolder'' w))
      \<and> new_requests w (snd (add_root_folder net app path w))
        = [api_request app GET ''rootfolder'' None,
           api_request app POST ''rootfolder'' (Some (JObj [(''path'', JStr path)]))])
   \<and> (fst (get net app ''remotePathMapping'' w) \<in> {Inr JNull, Inr (JList [])} \<longrightarrow>
      add_remote_path_mapping net app host remote_path local_path w
        = create net app ''remotePathMapping'' (mapping_config host remote_path local_path)
            (snd (get net app ''remotePathMapping'' w))
      \<and> new_requests w (snd (add_remote_path_mapping net app host remote_path local_path w))
        = [api_request app GET ''remotePathMapping'' None,
           api_request app POST ''remotePathMapping''
             (Some (mapping_config host remote_path local_path))])"
  using add_download_client_absent [of net app w rdt_url category cfg]
    add_root_folder_absent [of net app w path]
    add_remote_path_mapping_absent [of net app w host remote_path local_path]
  by blast

theorem fetch_failure_treated_as_absent_witness:
  "fst (get net_down sonarr_app ''downloadclient'' w0) \<in> {Inr JNull, Inr (JList [])}
   \<and> client_config ''http://rdtclient:6500'' ''sonarr'' = Inr sonarr_client_config
   \<and> fst (get net_down sonarr_app ''rootfolder'' w0) \<in> {Inr JNull, Inr (JList [])}
   \<and> fst (get net_down sonarr_app ''remotePathMapping'' w0) \<in> {Inr JNull, Inr (JList [])}
   \<and> new_requests w0 (snd (add_download_client net_down sonarr_app ''http://rdtclient:6500'' ''sonarr'' w0))
       = [api_request sonarr_app GET ''downloadclient'' None,
          api_request sonarr_app POST ''downloadclient'' (Some sonarr_client_config)]
   \<and> new_requests w0 (snd (add_root_folder net_down sonarr_app ''/tv'' w0))
       = [api_request sonarr_app GET ''rootfolder'' None,
          api_request sonarr_app POST ''rootfolder'' (Some (JObj [(''path'', JStr ''/tv'')]))]
   \<and> new_requests w0 (snd (add_remote_path_mapping net_down sonarr_app ''rdtclient''
          ''/data/downloads'' ''/data/downloads'' w0))
       = [api_request sonarr_app GET ''remotePathMapping'' None,
          api_request sonarr_app POST ''remotePathMapping''
            (Some (mapping_config ''rdtclient'' ''/data/downloads'' ''/data/downloads''))]
   \<and> add_root_folder net_down sonarr_app ''/tv'' w0
       = create net_down sonarr_app ''rootfolder'' (JObj [(''path'', JStr ''/tv'')])
           (snd (get net_down sonarr_app ''rootfolder'' w0))"
proof -
  have g: "fst (get net_down sonarr_app ep w0) \<in> {Inr JNull, Inr (JList [])}" for ep
    by (simp add: fst_get net_down_def api_result_spec_def)
  have c: "client_config ''http://rdtclient:6500'' ''sonarr'' = Inr sonarr_client_config"
    by (rule sonarr_client_config_eq)
  note t = fetch_failure_treated_as_absent [where net = net_down and app = sonarr_app and w = w0
      and rdt_url = "''http://rdtclient:6500''" and category = "''sonarr''"
      and cfg = sonarr_client_config and path = "''/tv''" and host = "''rdtclient''"
      and remote_path = "''/data/downloads''" and local_path = "''/data/downloads''"]
  show ?thesis
    using t g c by blast
qed

text \<open>The port of \<open>rdt_url\<close> is read by \<open>int\<close>: a separator character before the
  digits makes the operation raise after its GET, before any POST.\<close>

lemma client_config_separator:
  "client_config (''http://rdtclient:'' @ [CHR 0x1C] @ ''6500'') ''sonarr'' = Inl ValueError"
  by (simp add: client_config_def py_int_def int_isspace_def is_digit_def)

lemma truthy_iff: "truthy j \<longleftrightarrow> j \<notin> {JNull, JBool False, JInt 0, JStr [], JList [], JObj []}"
  by (cases j) auto

lemma api_result_2xx:
  "200 \<le> st \<Longrightarrow> st < 300 \<Longrightarrow> api_result_spec (Inr (Response st (Some j))) = Inr j"
  by (simp add: api_result_spec_def)

lemma add_download_client_created:
  assumes "fst (get net app ''downloadclient'' w) = Inr coll"
    and "already_present ''name'' ''RdtClient'' coll = Inr False"
    and "client_config rdt_url category = Inr cfg"
    and "creation_reply net app ''downloadclient'' cfg w = Inr (Response st (Some j))"
    and "200 \<le> st" and "st < 300"
  shows "fst (add_download_client net app rdt_url category w) = Inr (truthy j)"
  using assms
  by (simp add: add_download_client_eq create_eq fst_get snd_get creation_reply_def Let_def api_result_2xx)

lemma add_root_folder_created:
  assumes "fst (get net app ''rootfolder'' w) = Inr coll"
    and "already_present ''path'' path coll = Inr False"
    and "creation_reply net app ''rootfolder'' (JObj [(''path'', JStr path)]) w
           = Inr (Response st (Some j))"
    and "200 \<le> st" and "st < 300"
  shows "fst (add_root_folder net app path w) = Inr (truthy j)"
  using assms
  by (simp add: add_root_folder_eq create_eq fst_get snd_get creation_reply_def Let_def api_result_2xx)

lemma add_remote_path_mapping_created:
  assumes "fst (get net app ''remotePathMapping'' w) = Inr coll"
    and "already_present ''host'' host coll = Inr False"
    and "creation_reply net app ''remotePathMapping''
           (mapping_config host remote_path local_path) w = Inr (Response st (Some j))"
    and "200 \<le> st" and "st < 300"
  shows "fst (add_remote_path_mapping net app host remote_path local_path w) = Inr (truthy j)"
  using assms
  by (simp add: add_remote_path_mapping_eq create_eq fst_get snd_get creation_reply_def Let_def api_result_2xx)

text \<open>
  C9. When an operation has found no matching entry and sends its creation POST,
  and the reply has a 2xx status and a JSON body \<open>j\<close>, the operation reports
  \<open>truthy j\<close>: success only for a truthy body, failure when the body is \<open>null\<close>,
  \<open>false\<close>, \<open>0\<close>, an empty string, an empty list or an empty object.
\<close>

theorem creation_reports_truthiness:
  "(fst (get net app ''downloadclient'' w) = Inr coll
      \<and> already_present ''name'' ''RdtClient'' coll = Inr False
      \<and> client_config rdt_url category = Inr cfg
      \<and> creation_reply net app ''downloadclient'' cfg w = Inr (Response st (Some j))
      \<and> 200 \<le> st \<and> st < 300
      \<longrightarrow> fst (add_download_client net app rdt_url category w) = Inr (truthy j))
   \<and> (fst (get net app ''rootfolder'' w) = Inr coll
      \<and> already_present ''path'' path coll = Inr False
      \<and> creation_reply net app ''rootfolder'' (JObj [(''path'', JStr path)]) w
           = Inr (Response st (Some j))
      \<and> 200 \<le> st \<and> st < 300
      \<longrightarrow> fst (add_root_folder net app path w) = Inr (truthy j))
   \<and> (fst (get net app ''remotePathMapping'' w) = Inr coll
      \<and> already_present ''host'' host coll = Inr False
      \<and> creation_reply net app ''remotePathMapping''
           (mapping_config host remote_path local_path) w = Inr (Response st (Some j))
      \<and> 200 \<le> st \<and> st < 300
      \<longrightarrow> fst (add_remote_path_mapping net app host remote_path local_path w) = Inr (truthy j))
   \<and> (truthy j \<longleftrightarrow> j \<notin> {JNull, JBool False, JInt 0, JStr [], JList [], JObj []})"
proof (intro conjI impI)
  show "truthy j \<longleftrightarrow> j \<notin> {JNull, JBool False, JInt 0, JStr [], JList [], JObj []}"
    by (rule truthy_iff)
qed (blast intro: add_download_client_created add_root_folder_created
       add_remote_path_mapping_created)+

theorem creation_reports_truthiness_witness:
  "fst (get net_empty_reply sonarr_app ''rootfolder'' w0) = Inr (JList [])
   \<and> already_present ''path'' ''/tv'' (JList []) = Inr False
   \<and> creation_reply net_empty_reply sonarr_app ''rootfolder'' (JObj [(''path'', JStr ''/tv'')]) w0
        = Inr (Response 201 (Some (JObj [])))
   \<and> 200 \<le> (201::nat) \<and> (201::nat) < 300
   \<and> fst (add_root_folder net_empty_reply sonarr_app ''/tv'' w0) = Inr False"
proof -
  have g: "fst (get net_empty_reply sonarr_app ep w0) = Inr (JList [])" for ep
    by (simp add: fst_get net_empty_reply_def api_result_spec_def api_request_def)
  have a: "already_present ''path'' ''/tv'' (JList []) = Inr False"
    by (simp add: already_present_def)
  have r: "creation_reply net_empty_reply sonarr_app ''rootfolder'' (JObj [(''path'', JStr ''/tv'')]) w0
        = Inr (Response 201 (Some (JObj [])))"
    by (simp add: creation_reply_def net_empty_reply_def api_request_def)
  have "fst (add_root_folder net_empty_reply sonarr_app ''/tv'' w0) = Inr (truthy (JObj []))"
    using creation_reports_truthiness [where net = net_empty_reply and app = sonarr_app
        and w = w0 and coll = "JList []" and path = "''/tv''" and st = 201 and j = "JObj []"]
      g a r
    by simp
  then show ?thesis using g a r by simp
qed

section \<open>Repeated invocations: proofs\<close>

lemma creations_append:
  "creations net app log (rs @ rs') = creations net app log rs + creations net app (log @ rs) rs'"
  by (induction rs arbitrary: log) auto

lemma creations_needs_post:
  "0 < creations net app log rs \<Longrightarrow> list_ex (\<lambda>p. req_method p = POST) rs"
  by (induction rs arbitrary: log) (auto simp: is_creation_def split: if_splits)

lemma get_not_creation: "\<not> is_creation app (api_request app' GET ep data)"
  by (simp add: is_creation_def api_request_def)

lemma lists_rdtclient_found:
  assumes "lists_rdtclient reply"
  shows "\<exists>xs. api_result_spec reply = Inr (JList xs)
           \<and> already_present ''name'' ''RdtClient'' (JList xs) = Inr True"
proof -
  from assms obtain st xs where r: "reply = Inr (Response st (Some (JList xs)))"
    and st: "\<not> (400 \<le> st \<and> st < 600)" and d: "list_all is_dict xs"
    and e: "list_ex (\<lambda>x. dict_get x ''name'' JNull = Inr (JStr ''RdtClient'')) xs"
    by (auto simp: lists_rdtclient_def split: sum.splits response.splits option.splits json.splits)
  have "api_result_spec reply = Inr (JList xs)"
    using r st by (auto simp: api_result_spec_def)
  moreover have "\<exists>x\<in>set xs. dict_get x ''name'' JNull = Inr (JStr ''RdtClient'')"
    using e by (simp add: list_ex_iff)
  ultimately show ?thesis
    using already_present_found [OF d] by blast
qed

lemma add_download_client_world:
  "snd (add_download_client net app rdt_url category v)
     = after_request net (api_request app GET ''downloadclient'' None) v
   \<or> (\<exists>cfg. snd (add_download_client net app rdt_url category v)
         = after_request net (api_request app POST ''downloadclient'' (Some cfg))
             (after_request net (api_request app GET ''downloadclient'' None) v))"
proof (cases "api_result_spec (fst (net (sent v) (api_request app GET ''downloadclient'' None)))")
  case (Inl e)
  then show ?thesis by (simp add: add_download_client_eq Let_def)
next
  case (Inr clients)
  show ?thesis
  proof (cases "already_present ''name'' ''RdtClient'' clients")
    case (Inl e)
    with Inr show ?thesis by (simp add: add_download_client_eq Let_def)
  next
    case found: (Inr found)
    show ?thesis
    proof (cases found)
      case True
      with Inr found show ?thesis by (simp add: add_download_client_eq Let_def)
    next
      case False
      with Inr found show ?thesis
        by (cases "client_config rdt_url category")
           (auto simp add: add_download_client_eq snd_create Let_def)
    qed
  qed
qed

text \<open>One invocation: it sends its GET and at most one creation POST, and no POST
  at all once a client has been created.\<close>

lemma add_download_client_step:
  assumes "shows_created net app w" and "sent v = sent w @ rs"
  shows "\<exists>rs'. sent (snd (add_download_client net app rdt_url category v)) = sent w @ rs'
           \<and> (creations net app (sent w) rs' \<le> 1 \<or>
                creations net app (sent w) rs' = creations net app (sent w) rs)"
proof -
  let ?g = "api_request app GET ''downloadclient'' None"
  let ?reply = "fst (net (sent v) ?g)"
  let ?v1 = "after_request net ?g v"
  have v1: "sent ?v1 = sent w @ (rs @ [?g])"
    using assms(2) by (simp add: after_request_def)
  have c1: "creations net app (sent w) (rs @ [?g]) = creations net app (sent w) rs"
    by (simp add: creations_append get_not_creation)
  show ?thesis
  proof (cases "0 < creations net app (sent w) rs")
    case True
    then have "lists_rdtclient ?reply"
      using assms by (simp add: shows_created_def)
    then obtain xs where "api_result_spec ?reply = Inr (JList xs)"
      and "already_present ''name'' ''RdtClient'' (JList xs) = Inr True"
      using lists_rdtclient_found by blast
    then have "snd (add_download_client net app rdt_url category v) = ?v1"
      by (simp add: add_download_client_eq Let_def)
    then show ?thesis using v1 c1 by metis
  next
    case False
    then have z: "creations net app (sent w) rs = 0" by simp
    consider (same) "snd (add_download_client net app rdt_url category v) = ?v1"
      | (posted) cfg where "snd (add_download_client net app rdt_url category v)
            = after_request net (api_request app POST ''downloadclient'' (Some cfg)) ?v1"
      using add_download_client_world [of net app rdt_url category v] by blast
    then show ?thesis
    proof cases
      case same
      then show ?thesis using v1 c1 by metis
    next
      case (posted cfg)
      let ?p = "api_request app POST ''downloadclient'' (Some cfg)"
      have "sent (snd (add_download_client net app rdt_url category v)) = sent w @ (rs @ [?g, ?p])"
        using posted v1 by (simp add: after_request_def)
      moreover have "creations net app (sent w) (rs @ [?g, ?p]) \<le> 1"
        using z by (simp add: creations_append get_not_creation)
      ultimately show ?thesis by blast
    qed
  qed
qed

lemma rerun_at_most_one:
  assumes "shows_created net app w"
  shows "\<exists>rs. sent (rerun_add_download_client n net app rdt_url category w) = sent w @ rs
           \<and> creations net app (sent w) rs \<le> 1"
proof (induction n)
  case 0
  have "sent w = sent w @ [] \<and> creations net app (sent w) [] \<le> 1" by simp
  then show ?case unfolding rerun_add_download_client_def funpow.simps id_apply by blast
next
  case (Suc n)
  then obtain rs where rs: "sent (rerun_add_download_client n net app rdt_url category w) = sent w @ rs"
    and le: "creations net app (sent w) rs \<le> 1"
    by blast
  have "rerun_add_download_client (Suc n) net app rdt_url category w =
          snd (add_download_client net app rdt_url category
                 (rerun_add_download_client n net app rdt_url category w))"
    by (simp add: rerun_add_download_client_def)
  then show ?case
    using add_download_client_step [OF assms rs, of rdt_url category] le by auto
qed

text \<open>
  C4. Whenever the collection of download clients fetched from the service is a
  list of objects with an entry whose \<open>name\<close> is \<open>RdtClient\<close>, \<open>add_download_client\<close>
  reports success and the GET is the only request it sends: no creation POST. So
  on a service that lists the client once it has been created, any number of
  invocations in a row create at most one download client.
\<close>

theorem download_client_idempotent:
  "(fst (get net app ''downloadclient'' w) = Inr (JList clients)
      \<and> list_all is_dict clients
      \<and> (\<exists>c\<in>set clients. dict_get c ''name'' JNull = Inr (JStr ''RdtClient''))
      \<longrightarrow> fst (add_download_client net app rdt_url category w) = Inr True
        \<and> new_requests w (snd (add_download_client net app rdt_url category w))
            = [api_request app GET ''downloadclient'' None])
   \<and> (shows_created net app w
      \<longrightarrow> creations net app (sent w)
            (new_requests w (rerun_add_download_client n net app rdt_url category w)) \<le> 1)"
proof (intro conjI impI)
  assume a: "fst (get net app ''downloadclient'' w) = Inr (JList clients)
      \<and> list_all is_dict clients
      \<and> (\<exists>c\<in>set clients. dict_get c ''name'' JNull = Inr (JStr ''RdtClient''))"
  then have "already_present ''name'' ''RdtClient'' (JList clients) = Inr True"
    using already_present_found by blast
  then show "fst (add_download_client net app rdt_url category w) = Inr True"
    and "new_requests w (snd (add_download_client net app rdt_url category w))
            = [api_request app GET ''downloadclient'' None]"
    using a
    by (simp_all add: add_download_client_eq fst_get Let_def after_request_def new_requests_def)
next
  assume "shows_created net app w"
  from rerun_at_most_one [OF this, of n rdt_url category]
  show "creations net app (sent w)
          (new_requests w (rerun_add_download_client n net app rdt_url category w)) \<le> 1"
    by (auto simp: new_requests_def)
qed

lemma net_store_shows_created: "shows_created net_store app w0"
proof -
  have "lists_rdtclient (fst (net_store rs (api_request app GET ''downloadclient'' None)))"
    if "0 < creations net_store app [] rs" for rs
  proof -
    have "list_ex (\<lambda>p. req_method p = POST) rs"
      using that by (rule creations_needs_post)
    then show ?thesis
      by (simp add: net_store_def api_request_def lists_rdtclient_def)
  qed
  then show ?thesis
    by (simp add: shows_created_def w0_def)
qed

lemma rerun_creates_one:
  "creations net_store sonarr_app (sent w0)
     (new_requests w0 (rerun_add_download_client 3 net_store sonarr_app
        ''http://rdtclient:6500'' ''sonarr'' w0)) = 1"
  by (simp add: rerun_add_download_client_def numeral_3_eq_3 add_download_client_eq create_eq Let_def
        after_request_def new_requests_def w0_def net_store_def api_request_def
        api_result_spec_def already_present_def sonarr_client_config_eq
        is_creation_def accepted_def sonarr_app_def ArrApp_def rstrip_char_def)

theorem download_client_idempotent_witness:
  "fst (get net_configured sonarr_app ''downloadclient'' w0) =
     Inr (JList [JObj [(''id'', JInt 1), (''name'', JStr ''RdtClient''), (''host'', JStr ''rdtclient''),
               (''remotePath'', JStr ''/old''), (''localPath'', JStr ''/elsewhere'')]])
   \<and> fst (add_download_client net_configured sonarr_app ''http://rdtclient:6500'' ''sonarr'' w0)
       = Inr True
   \<and> new_requests w0 (snd (add_download_client net_configured sonarr_app
          ''http://rdtclient:6500'' ''sonarr'' w0))
       = [api_request sonarr_app GET ''downloadclient'' None]
   \<and> shows_created net_store sonarr_app w0
   \<and> creations net_store sonarr_app (sent w0)
        (new_requests w0 (rerun_add_download_client 3 net_store sonarr_app
           ''http://rdtclient:6500'' ''sonarr'' w0)) \<le> 1
   \<and> creations net_store sonarr_app (sent w0)
        (new_requests w0 (rerun_add_download_client 3 net_store sonarr_app
           ''http://rdtclient:6500'' ''sonarr'' w0)) = 1"
proof -
  let ?xs = "[JObj [(''id'', JInt 1), (''name'', JStr ''RdtClient''), (''host'', JStr ''rdtclient''),
               (''remotePath'', JStr ''/old''), (''localPath'', JStr ''/elsewhere'')]]"
  have g: "fst (get net_configured sonarr_app ''downloadclient'' w0) = Inr (JList ?xs)"
    by (simp add: fst_get net_configured_def api_result_spec_def)
  have d: "list_all is_dict ?xs" by simp
  have h: "\<exists>c\<in>set ?xs. dict_get c ''name'' JNull = Inr (JStr ''RdtClient'')" by simp
  note s = net_store_shows_created [of sonarr_app]
  show ?thesis
    using g d h s rerun_creates_one
      download_client_idempotent [where net = net_configured and app = sonarr_app and w = w0
        and clients = ?xs and rdt_url = "''http://rdtclient:6500''" and category = "''sonarr''"]
      download_client_idempotent [where net = net_store and app = sonarr_app and w = w0
        and n = 3 and rdt_url = "''http://rdtclient:6500''" and category = "''sonarr''"]
    by blast
qed

section \<open>Orchestration Driver: proofs\<close>

lemma wait_loop_gets:
  "\<exists>rs. sent (snd (wait_loop net app timeout start w)) = sent w @ rs
        \<and> list_all (\<lambda>r. req_method r = GET) rs"
proof (induction net app timeout start w rule: wait_loop.induct)
  case (1 net app timeout start w)
  show ?case
  proof (cases "now w - start < 1000 * timeout")
    case False
    then show ?thesis by (simp add: wait_loop.simps [of net app timeout start w])
  next
    case True
    obtain reply w' where s: "session_request net (status_request app) w = (reply, w')"
      by (cases "session_request net (status_request app) w")
    then have w': "sent w' = sent w @ [status_request app]"
      by (auto simp: session_request_def split: prod.splits)
    have g: "req_method (status_request app) = GET"
      by (simp add: status_request_def)
    have again: "\<exists>rs. sent (snd (wait_loop net app timeout start (sleep 2 w'))) = sent w @ rs
        \<and> list_all (\<lambda>r. req_method r = GET) rs"
      if "snd (wait_loop net app timeout start w) = snd (wait_loop net app timeout start (sleep 2 w'))"
        and ih: "\<exists>rs. sent (snd (wait_loop net app timeout start (sleep 2 w'))) = sent (sleep 2 w') @ rs
        \<and> list_all (\<lambda>r. req_method r = GET) rs"
    proof -
      from ih obtain rs where "sent (snd (wait_loop net app timeout start (sleep 2 w'))) = sent (sleep 2 w') @ rs"
        and "list_all (\<lambda>r. req_method r = GET) rs" by blast
      then have "sent (snd (wait_loop net app timeout start (sleep 2 w'))) = sent w @ (status_request app # rs)
          \<and> list_all (\<lambda>r. req_method r = GET) (status_request app # rs)"
        using w' g by (simp add: sleep_def)
      then show ?thesis by blast
    qed
    show ?thesis
    proof (cases reply)
      case (Inl e)
      have eq: "wait_loop net app timeout start w = wait_loop net app timeout start (sleep 2 w')"
        using True s Inl by (simp add: wait_loop.simps [of net app timeout start w])
      have "\<exists>rs. sent (snd (wait_loop net app timeout start (sleep 2 w'))) = sent (sleep 2 w') @ rs
        \<and> list_all (\<lambda>r. req_method r = GET) rs"
        using "1.IH"(1) [OF True s [symmetric]] Inl by simp
      with again eq show ?thesis by simp
    next
      case (Inr resp)
      show ?thesis
      proof (cases "status_code resp = 200")
        case yes: True
        have "wait_loop net app timeout start w = (True, w')"
          using True s Inr yes by (simp add: wait_loop.simps [of net app timeout start w])
        then have "sent (snd (wait_loop net app timeout start w)) = sent w @ [status_request app]
            \<and> list_all (\<lambda>r. req_method r = GET) [status_request app]"
          using w' g by simp
        then show ?thesis by blast
      next
        case no: False
        have eq: "wait_loop net app timeout start w = wait_loop net app timeout start (sleep 2 w')"
          using True s Inr no by (simp add: wait_loop.simps [of net app timeout start w])
        have "\<exists>rs. sent (snd (wait_loop net app timeout start (sleep 2 w'))) = sent (sleep 2 w') @ rs
          \<and> list_all (\<lambda>r. req_method r = GET) rs"
          using "1.IH"(2) [OF True s [symmetric] Inr no] by simp
        with again eq show ?thesis by simp
      qed
    qed
  qed
qed

lemma only_gets_refl: "only_gets w w"
  by (simp add: only_gets_def)

lemma only_gets_trans: "only_gets w w1 \<Longrightarrow> only_gets w1 w2 \<Longrightarrow> only_gets w w2"
  unfolding only_gets_def
proof -
  assume "\<exists>rs. sent w1 = sent w @ rs \<and> list_all (\<lambda>r. req_method r = GET) rs"
    and "\<exists>rs. sent w2 = sent w1 @ rs \<and> list_all (\<lambda>r. req_method r = GET) rs"
  then obtain rs rs' where "sent w2 = sent w @ (rs @ rs')"
    and "list_all (\<lambda>r. req_method r = GET) (rs @ rs')"
    by auto
  then show "\<exists>rs. sent w2 = sent w @ rs \<and> list_all (\<lambda>r. req_method r = GET) rs"
    by blast
qed

lemma only_gets_new_requests:
  "only_gets w w' \<Longrightarrow> list_all (\<lambda>r. req_method r = GET) (new_requests w w')"
  by (auto simp: only_gets_def new_requests_def)

lemma wait_for_ready_gets: "only_gets w (snd (wait_for_ready net app timeout w))"
  using wait_loop_gets [of net app timeout "now w" w]
  by (simp add: only_gets_def wait_for_ready_def)

lemma configure_sonarr_dry:
  "configure_sonarr net env True w =
     (if valid_key env ''SONARR_API_KEY''
      then (Inr (fst (wait_for_ready net
                   (ArrApp ''Sonarr'' ''http://localhost:8989'' (env ''SONARR_API_KEY'')) 60 w)),
            snd (wait_for_ready net
                   (ArrApp ''Sonarr'' ''http://localhost:8989'' (env ''SONARR_API_KEY'')) 60 w))
      else (Inr False, w))"
  by (simp add: configure_sonarr_def Let_def split: prod.splits bool.splits)

lemma configure_radarr_dry:
  "configure_radarr net env True w =
     (if valid_key env ''RADARR_API_KEY''
      then (Inr (fst (wait_for_ready net
                   (ArrApp ''Radarr'' ''http://localhost:7878'' (env ''RADARR_API_KEY'')) 60 w)),
            snd (wait_for_ready net
                   (ArrApp ''Radarr'' ''http://localhost:7878'' (env ''RADARR_API_KEY'')) 60 w))
      else (Inr False, w))"
  by (simp add: configure_radarr_def Let_def split: prod.splits bool.splits)

lemma configure_prowlarr_eq:
  "configure_prowlarr net env dry w =
     (if valid_key env ''PROWLARR_API_KEY''
      then (Inr (fst (wait_for_ready net
                   (ArrApp ''Prowlarr'' ''http://localhost:9696'' (env ''PROWLARR_API_KEY'')) 60 w)),
            snd (wait_for_ready net
                   (ArrApp ''Prowlarr'' ''http://localhost:9696'' (env ''PROWLARR_API_KEY'')) 60 w))
      else (Inr False, w))"
  by (simp add: configure_prowlarr_def Let_def split: prod.splits bool.splits)

lemma configure_sonarr_dry_gets:
  "\<exists>ok. fst (configure_sonarr net env True w) = Inr ok"
  "only_gets w (snd (configure_sonarr net env True w))"
  by (auto simp add: configure_sonarr_dry only_gets_refl wait_for_ready_gets)

lemma configure_radarr_dry_gets:
  "\<exists>ok. fst (configure_radarr net env True w) = Inr ok"
  "only_gets w (snd (configure_radarr net env True w))"
  by (auto simp add: configure_radarr_dry only_gets_refl wait_for_ready_gets)

lemma configure_prowlarr_gets:
  "\<exists>ok. fst (configure_prowlarr net env dry w) = Inr ok"
  "only_gets w (snd (configure_prowlarr net env dry w))"
  by (auto simp add: configure_prowlarr_eq only_gets_refl wait_for_ready_gets)

lemma sonarr_dry_step:
  "\<exists>ok w1. (if sel then configure_sonarr net env True w else (Inr True, w)) = (Inr ok, w1)
      \<and> only_gets w w1"
  by (auto simp add: configure_sonarr_dry only_gets_refl wait_for_ready_gets)

lemma radarr_dry_step:
  "\<exists>ok w1. (if sel then configure_radarr net env True w else (Inr True, w)) = (Inr ok, w1)
      \<and> only_gets w w1"
  by (auto simp add: configure_radarr_dry only_gets_refl wait_for_ready_gets)

lemma prowlarr_step:
  "\<exists>ok w1. (if sel then configure_prowlarr net env dry w else (Inr True, w)) = (Inr ok, w1)
      \<and> only_gets w w1"
  by (auto simp add: configure_prowlarr_eq only_gets_refl wait_for_ready_gets)

text \<open>\<open>main\<close>, once each of its three steps is known to return.\<close>

lemma main_run:
  assumes "load_env env_file = Inr env"
    and "(if selected a Sonarr then configure_sonarr net env (args_dry_run a) w
          else (Inr True, w)) = (Inr ok1, w1)"
    and "(if selected a Radarr then configure_radarr net env (args_dry_run a) w1
          else (Inr True, w1)) = (Inr ok2, w2)"
    and "(if selected a Prowlarr then configure_prowlarr net env (args_dry_run a) w2
          else (Inr True, w2)) = (Inr ok3, w3)"
  shows "main net a env_file w =
           (if ok1 \<and> ok2 \<and> ok3 then (Inr (), w3) else (Inl (SystemExit 1), w3))"
  unfolding main_def assms(1) sum.case assms(2) prod.case assms(3) assms(4) ..

lemma main_dry_gets:
  assumes "args_dry_run a"
  shows "only_gets w (snd (main net a env_file w))"
proof (cases "load_env env_file")
  case (Inl e)
  then show ?thesis by (simp add: main_def only_gets_refl)
next
  case (Inr env)
  have d: "args_dry_run a = True" using assms by simp
  obtain ok1 w1 where s1: "(if selected a Sonarr then configure_sonarr net env (args_dry_run a) w
        else (Inr True, w)) = (Inr ok1, w1)" and g1: "only_gets w w1"
    unfolding d using sonarr_dry_step by blast
  obtain ok2 w2 where s2: "(if selected a Radarr then configure_radarr net env (args_dry_run a) w1
        else (Inr True, w1)) = (Inr ok2, w2)" and g2: "only_gets w1 w2"
    unfolding d using radarr_dry_step by blast
  obtain ok3 w3 where s3: "(if selected a Prowlarr then configure_prowlarr net env (args_dry_run a) w2
        else (Inr True, w2)) = (Inr ok3, w3)" and g3: "only_gets w2 w3"
    using prowlarr_step by blast
  have "snd (main net a env_file w) = w3"
    by (simp add: main_run [OF Inr s1 s2 s3])
  then show ?thesis
    using only_gets_trans [OF only_gets_trans [OF g1 g2] g3] by simp
qed

lemma main_dry_ok:
  "args_dry_run a \<longrightarrow>
     list_all (\<lambda>r. req_method r = GET) (new_requests w (snd (main net a env_file w)))"
proof
  assume "args_dry_run a"
  then have "only_gets w (snd (main net a env_file w))"
    by (rule main_dry_gets)
  then show "list_all (\<lambda>r. req_method r = GET) (new_requests w (snd (main net a env_file w)))"
    by (rule only_gets_new_requests)
qed

lemma sonarr_dry_ok:
  "valid_key env ''SONARR_API_KEY''
     \<and> fst (wait_for_ready net
              (ArrApp ''Sonarr'' ''http://localhost:8989'' (env ''SONARR_API_KEY'')) 60 w)
   \<longrightarrow> fst (configure_sonarr net env True w) = Inr True
     \<and> list_all (\<lambda>r. req_method r = GET)
         (new_requests w (snd (configure_sonarr net env True w)))"
proof (intro impI conjI)
  assume "valid_key env ''SONARR_API_KEY''
     \<and> fst (wait_for_ready net
              (ArrApp ''Sonarr'' ''http://localhost:8989'' (env ''SONARR_API_KEY'')) 60 w)"
  then show "fst (configure_sonarr net env True w) = Inr True"
    by (simp add: configure_sonarr_dry)
  show "list_all (\<lambda>r. req_method r = GET)
         (new_requests w (snd (configure_sonarr net env True w)))"
    by (rule only_gets_new_requests) (rule configure_sonarr_dry_gets)
qed

lemma radarr_dry_ok:
  "valid_key env ''RADARR_API_KEY''
     \<and> fst (wait_for_ready net
              (ArrApp ''Radarr'' ''http://localhost:7878'' (env ''RADARR_API_KEY'')) 60 w)
   \<longrightarrow> fst (configure_radarr net env True w) = Inr True
     \<and> list_all (\<lambda>r. req_method r = GET)
         (new_requests w (snd (configure_radarr net env True w)))"
proof (intro impI conjI)
  assume "valid_key env ''RADARR_API_KEY''
     \<and> fst (wait_for_ready net
              (ArrApp ''Radarr'' ''http://localhost:7878'' (env ''RADARR_API_KEY'')) 60 w)"
  then show "fst (configure_radarr net env True w) = Inr True"
    by (simp add: configure_radarr_dry)
  show "list_all (\<lambda>r. req_method r = GET)
         (new_requests w (snd (configure_radarr net env True w)))"
    by (rule only_gets_new_requests) (rule configure_radarr_dry_gets)
qed

lemma prowlarr_dry_ok:
  "valid_key env ''PROWLARR_API_KEY''
     \<and> fst (wait_for_ready net
              (ArrApp ''Prowlarr'' ''http://localhost:9696'' (env ''PROWLARR_API_KEY'')) 60 w)
   \<longrightarrow> fst (configure_prowlarr net env True w) = Inr True
     \<and> list_all (\<lambda>r. req_method r = GET)
         (new_requests w (snd (configure_prowlarr net env True w)))"
proof (intro impI conjI)
  assume "valid_key env ''PROWLARR_API_KEY''
     \<and> fst (wait_for_ready net
              (ArrApp ''Prowlarr'' ''http://localhost:9696'' (env ''PROWLARR_API_KEY'')) 60 w)"
  then show "fst (configure_prowlarr net env True w) = Inr True"
    by (simp add: configure_prowlarr_eq)
  show "list_all (\<lambda>r. req_method r = GET)
         (new_requests w (snd (configure_prowlarr net env True w)))"
    by (rule only_gets_new_requests) (rule configure_prowlarr_gets)
qed

text \<open>
  C7. In dry-run mode the whole run of the driver sends GET requests only, never a
  POST or a PUT; and a service whose API key is set and not empty and whose
  readiness probe succeeds is reported as configured (\<open>True\<close>), with nothing but
  the GETs of the probe sent.
\<close>

theorem dry_run_sends_no_post:
  "(args_dry_run a \<longrightarrow>
      list_all (\<lambda>r. req_method r = GET) (new_requests w (snd (main net a env_file w))))
   \<and> (valid_key env ''SONARR_API_KEY''
       \<and> fst (wait_for_ready net
                (ArrApp ''Sonarr'' ''http://localhost:8989'' (env ''SONARR_API_KEY'')) 60 w)
      \<longrightarrow> fst (configure_sonarr net env True w) = Inr True
        \<and> list_all (\<lambda>r. req_method r = GET)
            (new_requests w (snd (configure_sonarr net env True w))))
   \<and> (valid_key env ''RADARR_API_KEY''
       \<and> fst (wait_for_ready net
                (ArrApp ''Radarr'' ''http://localhost:7878'' (env ''RADARR_API_KEY'')) 60 w)
      \<longrightarrow> fst (configure_radarr net env True w) = Inr True
        \<and> list_all (\<lambda>r. req_method r = GET)
            (new_requests w (snd (configure_radarr net env True w))))
   \<and> (valid_key env ''PROWLARR_API_KEY''
       \<and> fst (wait_for_ready net
                (ArrApp ''Prowlarr'' ''http://localhost:9696'' (env ''PROWLARR_API_KEY'')) 60 w)
      \<longrightarrow> fst (configure_prowlarr net env True w) = Inr True
        \<and> list_all (\<lambda>r. req_method r = GET)
            (new_requests w (snd (configure_prowlarr net env True w))))"
  by (rule conjI, rule main_dry_ok, rule conjI, rule sonarr_dry_ok,
      rule conjI, rule radarr_dry_ok, rule prowlarr_dry_ok)

lemma wait_loop_first_probe:
  assumes "fst (net (sent w) (status_request app)) = Inr (Response 200 b)"
  shows "fst (wait_loop net app 60 (now w) w)"
proof -
  obtain dt where "net (sent w) (status_request app) = (Inr (Response 200 b), dt)"
    using assms by (cases "net (sent w) (status_request app)") simp
  then show ?thesis
    by (subst wait_loop.simps) (simp add: session_request_def)
qed

lemma net_ready_only_ready:
  assumes "u \<in> {''http://localhost:8989'', ''http://localhost:7878'', ''http://localhost:9696''}"
  shows "fst (wait_for_ready net_ready_only (ArrApp nm u k) 60 w)"
proof -
  have "url (ArrApp nm u k) = u"
    using assms by (auto simp: ArrApp_def rstrip_char_def)
  then have "fst (net_ready_only (sent w) (status_request (ArrApp nm u k)))
      = Inr (Response 200 (Some (JObj [(''version'', JStr ''4.0'')])))"
    using assms by (auto simp: net_ready_only_def status_request_def)
  then show ?thesis
    unfolding wait_for_ready_def by (rule wait_loop_first_probe)
qed

lemma sample_env_valid:
  "valid_key sample_env ''SONARR_API_KEY''" "valid_key sample_env ''RADARR_API_KEY''"
  "valid_key sample_env ''PROWLARR_API_KEY''"
  by (simp_all add: valid_key_def sample_env_def)

theorem dry_run_sends_no_post_witness:
  "args_dry_run sonarr_dry_run
   \<and> valid_key sample_env ''SONARR_API_KEY''
   \<and> fst (wait_for_ready net_ready_only
            (ArrApp ''Sonarr'' ''http://localhost:8989'' (sample_env ''SONARR_API_KEY'')) 60 w0)
   \<and> valid_key sample_env ''RADARR_API_KEY''
   \<and> fst (wait_for_ready net_ready_only
            (ArrApp ''Radarr'' ''http://localhost:7878'' (sample_env ''RADARR_API_KEY'')) 60 w0)
   \<and> valid_key sample_env ''PROWLARR_API_KEY''
   \<and> fst (wait_for_ready net_ready_only
            (ArrApp ''Prowlarr'' ''http://localhost:9696'' (sample_env ''PROWLARR_API_KEY'')) 60 w0)
   \<and> list_all (\<lambda>r. req_method r = GET)
        (new_requests w0 (snd (main net_ready_only sonarr_dry_run (Some sample_env_file) w0)))
   \<and> fst (configure_sonarr net_ready_only sample_env True w0) = Inr True
   \<and> fst (configure_radarr net_ready_only sample_env True w0) = Inr True
   \<and> fst (configure_prowlarr net_ready_only sample_env True w0) = Inr True"
proof -
  have d: "args_dry_run sonarr_dry_run"
    by (simp add: sonarr_dry_run_def)
  have r: "fst (wait_for_ready net_ready_only
            (ArrApp ''Sonarr'' ''http://localhost:8989'' (sample_env ''SONARR_API_KEY'')) 60 w0)"
    "fst (wait_for_ready net_ready_only
            (ArrApp ''Radarr'' ''http://localhost:7878'' (sample_env ''RADARR_API_KEY'')) 60 w0)"
    "fst (wait_for_ready net_ready_only
            (ArrApp ''Prowlarr'' ''http://localhost:9696'' (sample_env ''PROWLARR_API_KEY'')) 60 w0)"
    by (simp_all add: net_ready_only_ready)
  show ?thesis
    using d r sample_env_valid
      dry_run_sends_no_post [where a = sonarr_dry_run and net = net_ready_only and w = w0
        and env = sample_env and env_file = "Some sample_env_file"]
    by blast
qed

text \<open>The run of \<open>main\<close> for Sonarr on a service that answers its status endpoint
  and refuses every other request.\<close>

lemma load_sample_env:
  "load_env (Some sample_env_file) = Inr (foldl load_line Map.empty sample_env_file)"
  "foldl load_line Map.empty sample_env_file ''SONARR_API_KEY'' = Some ''abc123''"
  by (simp_all add: load_env_def sample_env_file_def load_line_def split_once_def strip_simps
        startswith_def py_isspace_def)

lemma sonarr_app_url: "url sonarr_app = ''http://localhost:8989''"
  by (simp add: sonarr_app_def ArrApp_def rstrip_char_def)

lemma net_ready_only_refuses:
  "ep \<noteq> ''system/status'' \<Longrightarrow> fst (net_ready_only log (api_request sonarr_app m ep data)) = Inl ConnectionError"
  by (simp add: net_ready_only_def api_request_def sonarr_app_url)

lemma sonarr_ops_fail:
  "fst (add_download_client net_ready_only sonarr_app ''http://rdtclient:6500'' ''sonarr'' w) = Inr False"
  "fst (add_root_folder net_ready_only sonarr_app ''/tv'' w) = Inr False"
  "fst (add_remote_path_mapping net_ready_only sonarr_app ''rdtclient''
          ''/data/downloads'' ''/data/downloads'' w) = Inr False"
  by (simp_all add: add_download_client_eq add_root_folder_eq add_remote_path_mapping_eq create_eq
        net_ready_only_refuses api_result_spec_def already_present_def Let_def
        sonarr_client_config_eq)

lemma configure_sonarr_run:
  assumes "env ''SONARR_API_KEY'' = Some ''abc123''"
  shows "configure_sonarr net_ready_only env False w0 = (Inr True, w_mapping)"
proof -
  have app: "ArrApp ''Sonarr'' ''http://localhost:8989'' (Some ''abc123'') = sonarr_app"
    by (simp add: sonarr_app_def)
  have r: "wait_for_ready net_ready_only sonarr_app 60 w0 = (True, w_ready)"
    using net_ready_only_ready [of "''http://localhost:8989''" "''Sonarr''" "Some ''abc123''" w0]
    by (simp add: app w_ready_def prod_eq_iff)
  have c: "add_download_client net_ready_only sonarr_app ''http://rdtclient:6500'' ''sonarr'' w_ready
             = (Inr False, w_client)"
    by (simp add: prod_eq_iff sonarr_ops_fail w_client_def)
  have f: "add_root_folder net_ready_only sonarr_app ''/tv'' w_client = (Inr False, w_folder)"
    by (simp add: prod_eq_iff sonarr_ops_fail w_folder_def)
  have m: "add_remote_path_mapping net_ready_only sonarr_app ''rdtclient''
             ''/data/downloads'' ''/data/downloads'' w_folder = (Inr False, w_mapping)"
    by (simp add: prod_eq_iff sonarr_ops_fail w_mapping_def)
  show ?thesis
    unfolding configure_sonarr_def valid_key_def assms Let_def app
    by (simp add: r c f m)
qed

lemma failed_run_requests:
  "map req_method (sent w_mapping) = [GET, GET, POST, GET, POST, GET, POST]"
  by (simp add: w_mapping_def w_folder_def w_client_def w_ready_def
        add_download_client_eq add_root_folder_eq add_remote_path_mapping_eq create_eq
        net_ready_only_refuses api_result_spec_def already_present_def Let_def
        sonarr_client_config_eq after_request_def api_request_def
        wait_for_ready_def wait_loop.simps [of _ _ _ 0 w0] session_request_def
        status_request_def net_ready_only_def sonarr_app_url w0_def)

text \<open>
  C1 does not hold of the code. On a Sonarr that answers its status endpoint and
  refuses every other request, the three operations of \<open>configure_sonarr\<close> all
  return \<open>False\<close> (each sends its GET and its POST, and both fail);
  \<open>configure_sonarr\<close> drops their results and returns \<open>True\<close>, and \<open>main\<close> returns
  normally: the exit code is 0, not 1.
\<close>

theorem failed_operations_exit_zero:
  "fst (add_download_client net_ready_only sonarr_app ''http://rdtclient:6500'' ''sonarr'' w_ready)
     = Inr False
   \<and> fst (add_root_folder net_ready_only sonarr_app ''/tv'' w_client) = Inr False
   \<and> fst (add_remote_path_mapping net_ready_only sonarr_app ''rdtclient''
            ''/data/downloads'' ''/data/downloads'' w_folder) = Inr False
   \<and> main net_ready_only sonarr_run (Some sample_env_file) w0 = (Inr (), w_mapping)
   \<and> map req_method (sent w_mapping) = [GET, GET, POST, GET, POST, GET, POST]
   \<and> exit_code (fst (main net_ready_only sonarr_run (Some sample_env_file) w0)) = 0"
proof -
  have s1: "(if selected sonarr_run Sonarr
             then configure_sonarr net_ready_only (foldl load_line Map.empty sample_env_file)
                    (args_dry_run sonarr_run) w0
             else (Inr True, w0)) = (Inr True, w_mapping)"
    using configure_sonarr_run [where env = "foldl load_line Map.empty sample_env_file"]
      load_sample_env(2)
    by (simp add: selected_def sonarr_run_def)
  have s2: "(if selected sonarr_run Radarr
             then configure_radarr net_ready_only (foldl load_line Map.empty sample_env_file)
                    (args_dry_run sonarr_run) w_mapping
             else (Inr True, w_mapping)) = (Inr True, w_mapping)"
    by (simp add: selected_def sonarr_run_def)
  have s3: "(if selected sonarr_run Prowlarr
             then configure_prowlarr net_ready_only (foldl load_line Map.empty sample_env_file)
                    (args_dry_run sonarr_run) w_mapping
             else (Inr True, w_mapping)) = (Inr True, w_mapping)"
    by (simp add: selected_def sonarr_run_def)
  have "main net_ready_only sonarr_run (Some sample_env_file) w0 = (Inr (), w_mapping)"
    using main_run [OF load_sample_env(1) s1 s2 s3] by simp
  then show ?thesis
    by (simp add: sonarr_ops_fail failed_run_requests)
qed

section \<open>Webhook Relay: proofs\<close>

lemma extract_title_series:
  assumes "title_under kvs ''series'' = Some t" and "truthy t"
  shows "extract_title (JObj kvs) = Inr t"
proof -
  from assms(1) obtain d where "map_of kvs ''series'' = Some (JObj d)" and "map_of d ''title'' = Some t"
    by (auto simp: title_under_def split: option.splits json.splits)
  then show ?thesis
    using assms(2) by (simp add: extract_title_def)
qed

lemma series_title_falsy:
  assumes "object_or_absent kvs ''series''" and "\<not> has_title kvs ''series''"
  shows "\<exists>s t. dict_get (JObj kvs) ''series'' (JObj []) = Inr s
           \<and> dict_get s ''title'' JNull = Inr t \<and> \<not> truthy t"
proof (cases "map_of kvs ''series''")
  case None
  then show ?thesis by simp
next
  case (Some v)
  then obtain d where v: "v = JObj d"
    using assms(1) by (cases v) (auto simp: object_or_absent_def)
  show ?thesis
    using assms(2) Some v
    by (cases "map_of d ''title''") (auto simp: has_title_def title_under_def)
qed

lemma extract_title_movie:
  assumes "object_or_absent kvs ''series''" and "\<not> has_title kvs ''series''"
    and "title_under kvs ''movie'' = Some t"
  shows "extract_title (JObj kvs) = Inr t"
proof -
  from assms(3) obtain d where m: "map_of kvs ''movie'' = Some (JObj d)" "map_of d ''title'' = Some t"
    by (auto simp: title_under_def split: option.splits json.splits)
  from series_title_falsy [OF assms(1,2)] obtain s st where
    "dict_get (JObj kvs) ''series'' (JObj []) = Inr s" "dict_get s ''title'' JNull = Inr st" "\<not> truthy st"
    by blast
  then show ?thesis
    using m by (simp add: extract_title_def)
qed

lemma extract_title_unknown:
  assumes "object_or_absent kvs ''series''" and "\<not> has_title kvs ''series''"
    and "object_or_absent kvs ''movie''" and "title_under kvs ''movie'' = None"
  shows "extract_title (JObj kvs) = Inr (JStr ''Unknown'')"
proof -
  from series_title_falsy [OF assms(1,2)] obtain s st where
    s: "dict_get (JObj kvs) ''series'' (JObj []) = Inr s" "dict_get s ''title'' JNull = Inr st" "\<not> truthy st"
    by blast
  have "\<exists>m. dict_get (JObj kvs) ''movie'' (JObj []) = Inr m
          \<and> dict_get m ''title'' (JStr ''Unknown'') = Inr (JStr ''Unknown'')"
  proof (cases "map_of kvs ''movie''")
    case None
    then show ?thesis by simp
  next
    case (Some v)
    then obtain d where v: "v = JObj d"
      using assms(3) by (cases v) (auto simp: object_or_absent_def)
    then show ?thesis
      using assms(4) Some by (auto simp: title_under_def)
  qed
  then show ?thesis
    using s by (auto simp: extract_title_def)
qed

text \<open>The handler, once the body is read and decoded, the title extracted and
  formatted, and the command accepted by \<open>os.system\<close>.\<close>

lemma extract_title_dict:
  assumes "extract_title data = Inr t"
  shows "\<exists>kvs. data = JObj kvs"
  using assms by (cases data) (auto simp: extract_title_def)

lemma do_POST_run:
  assumes "request_body request = Inr raw"
    and "decode_json raw = Inr data"
    and "extract_title data = Inr t"
    and "format_value str_of t = Inr title"
    and "os_system (alert_command title) = Inr exit_status"
  shows "do_POST decode_json str_of os_system request =
           (Inr \<lparr>status = 200, body = []\<rparr>, [(alert_command title, exit_status)])"
proof -
  obtain kvs where d: "data = JObj kvs"
    using extract_title_dict [OF assms(3)] by blast
  obtain len where l: "(case content_length request of None \<Rightarrow> Some 0 | Some h \<Rightarrow> py_int h) = Some len"
    and r: "rfile request len = Inr raw"
    using assms(1) by (auto simp: request_body_def declared_length_def split: option.splits)
  show ?thesis
    unfolding do_POST_def l option.case r sum.case assms(2)
    using assms(3,4,5) by (simp add: d)
qed

lemma do_POST_undecoded:
  assumes "request_body request = Inr raw"
    and "decode_json raw = Inl e"
  shows "do_POST decode_json str_of os_system request = (Inl e, [])"
proof -
  obtain len where l: "(case content_length request of None \<Rightarrow> Some 0 | Some h \<Rightarrow> py_int h) = Some len"
    and r: "rfile request len = Inr raw"
    using assms(1) by (auto simp: request_body_def declared_length_def split: option.splits)
  show ?thesis
    unfolding do_POST_def l option.case r sum.case assms(2) by simp
qed

lemma do_POST_refused:
  assumes "request_body request = Inr raw"
    and "decode_json raw = Inr data"
    and "extract_title data = Inr t"
    and "format_value str_of t = Inr title"
    and "os_system (alert_command title) = Inl e"
  shows "do_POST decode_json str_of os_system request = (Inl e, [])"
proof -
  obtain kvs where d: "data = JObj kvs"
    using extract_title_dict [OF assms(3)] by blast
  obtain len where l: "(case content_length request of None \<Rightarrow> Some 0 | Some h \<Rightarrow> py_int h) = Some len"
    and r: "rfile request len = Inr raw"
    using assms(1) by (auto simp: request_body_def declared_length_def split: option.splits)
  show ?thesis
    unfolding do_POST_def l option.case r sum.case assms(2)
    using assms(3,4,5) by (simp add: d)
qed

lemma do_POST_response:
  assumes "fst (do_POST decode_json str_of os_system request) = Inr resp"
  shows "resp = \<lparr>status = 200, body = []\<rparr>"
  using assms unfolding do_POST_def
  by (auto split: option.splits sum.splits)

text \<open>
  C2 (as amended). Take a POST whose \<open>Content-Length\<close> is absent or a text that
  \<open>int\<close> accepts, whose body \<open>rfile.read\<close> returns and the decoder turns into a JSON
  value from which the handler can take a title (the value is an object; what it
  holds under \<open>series\<close> and, where that is read, under \<open>movie\<close> is an object), a
  title that can be formatted and gives a command line that \<open>os.system\<close> accepts
  (no NUL character, no text that cannot be encoded). The handler answers it
  with status 200 and an empty body, whatever exit status the alert command
  returns. When the body does not decode, the handler raises before it runs the
  alert or writes anything: there is no response. A response, when there is one,
  is always 200 with an empty body.
\<close>

theorem relay_responds_200:
  "(request_body request = Inr raw
      \<and> decode_json raw = Inr data
      \<and> extract_title data = Inr t
      \<and> format_value str_of t = Inr title
      \<and> os_system (alert_command title) = Inr exit_status
      \<longrightarrow> do_POST decode_json str_of os_system request
            = (Inr \<lparr>status = 200, body = []\<rparr>, [(alert_command title, exit_status)]))
   \<and> (request_body request = Inr raw
      \<and> decode_json raw = Inl e
      \<longrightarrow> do_POST decode_json str_of os_system request = (Inl e, []))
   \<and> (fst (do_POST decode_json str_of os_system request) = Inr resp
      \<longrightarrow> resp = \<lparr>status = 200, body = []\<rparr>)"
  using do_POST_run [of request raw decode_json data t str_of title os_system exit_status]
    do_POST_undecoded [of request raw decode_json e str_of os_system]
    do_POST_response [of decode_json str_of os_system request resp]
  by blast

lemma sample_bodies:
  "request_body post_show_a = Inr body_show_a"
  "request_body post_film_b = Inr body_film_b"
  "request_body post_test = Inr body_test"
  "request_body post_empty_series = Inr body_empty_series"
  "request_body post_surrogate = Inr body_surrogate"
  "request_body post_not_json = Inr ''not json''"
  by (simp_all add: request_body_def declared_length_def socket_file_def
        post_show_a_def post_film_b_def post_test_def post_empty_series_def post_surrogate_def
        post_not_json_def py_int_def int_isspace_def is_digit_def
        body_show_a_def body_film_b_def body_test_def body_empty_series_def body_surrogate_def)

lemma sample_decoded:
  "sample_loads body_show_a =
     Inr (JObj [(''eventType'', JStr ''Download''), (''series'', JObj [(''title'', JStr ''Show A'')])])"
  "sample_loads body_film_b =
     Inr (JObj [(''eventType'', JStr ''Download''), (''movie'', JObj [(''title'', JStr ''Film B'')])])"
  "sample_loads body_test = Inr (JObj [(''eventType'', JStr ''Test'')])"
  "sample_loads body_empty_series =
     Inr (JObj [(''eventType'', JStr ''Download''), (''series'', JObj [(''title'', JStr [])]),
                (''movie'', JObj [(''title'', JStr ''Film B'')])])"
  "sample_loads body_surrogate =
     Inr (JObj [(''series'', JObj [(''title'', JStr [CHR 0xED, CHR 0xA0, CHR 0x80])])])"
  "sample_loads ''not json'' = Inl JSONDecodeError"
  by (simp_all add: sample_loads_def body_show_a_def body_film_b_def body_test_def
        body_empty_series_def body_surrogate_def)

lemma sample_commands:
  "shell_exit st (alert_command ''Show A'') = Inr st"
  "shell_exit st (alert_command ''Film B'') = Inr st"
  "shell_exit st (alert_command ''Unknown'') = Inr st"
  "shell_exit st (alert_command [CHR 0xED, CHR 0xA0, CHR 0x80]) = Inl UnicodeEncodeError"
  by (simp_all add: shell_exit_def alert_command_def)

theorem relay_responds_200_witness:
  "request_body post_show_a = Inr body_show_a
   \<and> sample_loads body_show_a =
       Inr (JObj [(''eventType'', JStr ''Download''), (''series'', JObj [(''title'', JStr ''Show A'')])])
   \<and> extract_title (JObj [(''eventType'', JStr ''Download''),
                           (''series'', JObj [(''title'', JStr ''Show A'')])]) = Inr (JStr ''Show A'')
   \<and> format_value sample_str (JStr ''Show A'') = Inr ''Show A''
   \<and> shell_exit 32512 (alert_command ''Show A'') = Inr 32512
   \<and> do_POST sample_loads sample_str (shell_exit 32512) post_show_a
       = (Inr \<lparr>status = 200, body = []\<rparr>, [(alert_command ''Show A'', 32512)])
   \<and> request_body post_not_json = Inr ''not json''
   \<and> sample_loads ''not json'' = Inl JSONDecodeError
   \<and> do_POST sample_loads sample_str (shell_exit 0) post_not_json = (Inl JSONDecodeError, [])
   \<and> fst (do_POST sample_loads sample_str (shell_exit 0) post_show_a)
       = Inr \<lparr>status = 200, body = []\<rparr>"
proof -
  let ?data = "JObj [(''eventType'', JStr ''Download''), (''series'', JObj [(''title'', JStr ''Show A'')])]"
  have t: "extract_title ?data = Inr (JStr ''Show A'')"
    by (simp add: extract_title_def)
  have f: "format_value sample_str (JStr ''Show A'') = Inr ''Show A''"
    by (simp add: format_value_def)
  note a = relay_responds_200 [where request = post_show_a and raw = body_show_a
        and decode_json = sample_loads and data = ?data and t = "JStr ''Show A''"
        and str_of = sample_str and title = "''Show A''" and os_system = "shell_exit 32512"
        and exit_status = 32512]
  note b = relay_responds_200 [where request = post_not_json and raw = "''not json''"
        and decode_json = sample_loads and e = JSONDecodeError and str_of = sample_str
        and os_system = "shell_exit 0"]
  note c = relay_responds_200 [where request = post_show_a and raw = body_show_a
        and decode_json = sample_loads and data = ?data and t = "JStr ''Show A''"
        and str_of = sample_str and title = "''Show A''" and os_system = "shell_exit 0"
        and exit_status = 0]
  note x = sample_commands(1) [of 32512]
  note y = sample_commands(1) [of 0]
  have 1: "do_POST sample_loads sample_str (shell_exit 32512) post_show_a
       = (Inr \<lparr>status = 200, body = []\<rparr>, [(alert_command ''Show A'', 32512)])"
    using a sample_bodies(1) sample_decoded(1) t f x by blast
  have 2: "do_POST sample_loads sample_str (shell_exit 0) post_not_json = (Inl JSONDecodeError, [])"
    using b sample_bodies(6) sample_decoded(6) by blast
  have "do_POST sample_loads sample_str (shell_exit 0) post_show_a
       = (Inr \<lparr>status = 200, body = []\<rparr>, [(alert_command ''Show A'', 0)])"
    using c sample_bodies(1) sample_decoded(1) t f y by blast
  then have 3: "fst (do_POST sample_loads sample_str (shell_exit 0) post_show_a)
       = Inr \<lparr>status = 200, body = []\<rparr>"
    by (rule arg_cong [where f = fst, THEN trans]) (rule fst_conv)
  show ?thesis
    using sample_bodies(1,6) sample_decoded(1,6) t f x 1 2 3 by blast
qed

text \<open>
  C2 as it is written fails when the body is not JSON: \<open>json.loads\<close> raises, nothing
  catches it, and the handler ends before \<open>send_response\<close>. No response is sent
  and no alert is run. It fails as well when the alert cannot even be started:
  for a title that is a lone surrogate \<open>os.system\<close> raises \<open>UnicodeEncodeError\<close>,
  and again nothing is sent.
\<close>

theorem relay_undecodable_body_counterexample:
  "do_POST sample_loads sample_str (shell_exit 0) post_not_json = (Inl JSONDecodeError, [])
   \<and> fst (do_POST sample_loads sample_str (shell_exit 0) post_not_json)
       \<noteq> Inr \<lparr>status = 200, body = []\<rparr>
   \<and> do_POST sample_loads sample_str (shell_exit 0) post_surrogate = (Inl UnicodeEncodeError, [])"
proof -
  have 1: "do_POST sample_loads sample_str (shell_exit 0) post_not_json = (Inl JSONDecodeError, [])"
    using sample_bodies(6) sample_decoded(6) by (rule do_POST_undecoded)
  have t: "extract_title (JObj [(''series'', JObj [(''title'', JStr [CHR 0xED, CHR 0xA0, CHR 0x80])])])
      = Inr (JStr [CHR 0xED, CHR 0xA0, CHR 0x80])"
    by (simp add: extract_title_def)
  have f: "format_value sample_str (JStr [CHR 0xED, CHR 0xA0, CHR 0x80])
      = Inr [CHR 0xED, CHR 0xA0, CHR 0x80]"
    by (simp add: format_value_def)
  have 2: "do_POST sample_loads sample_str (shell_exit 0) post_surrogate = (Inl UnicodeEncodeError, [])"
    using sample_bodies(5) sample_decoded(5) t f sample_commands(4) by (rule do_POST_refused)
  have "fst (do_POST sample_loads sample_str (shell_exit 0) post_not_json) = Inl JSONDecodeError"
    by (subst 1) (rule fst_conv)
  then have 3: "fst (do_POST sample_loads sample_str (shell_exit 0) post_not_json)
       \<noteq> Inr \<lparr>status = 200, body = []\<rparr>"
    by (simp only: sum.distinct not_False_eq_True)
  show ?thesis
    using 1 2 3 by blast
qed

text \<open>
  C8 (as amended). Take a request whose \<open>Content-Length\<close> is absent or a text that
  \<open>int\<close> accepts and whose body \<open>rfile.read\<close> returns and the decoder turns into a
  JSON object, and let the title be one that can be formatted into a command
  line that \<open>os.system\<close> accepts. When the object under \<open>series\<close> has a truthy
  title (for a string: a non-empty one), the one command run is the alert with
  that title put before \<open>is ready to watch!\<close>. When \<open>series\<close> is absent or an object
  whose title is absent or falsy (empty string, \<open>null\<close>, \<open>0\<close>, \<open>false\<close>), the title
  of the object under \<open>movie\<close> is used instead. When moreover \<open>movie\<close> is absent or
  an object without a title, the title is the literal \<open>Unknown\<close>. A title that is
  a string is put into the command as it is.
\<close>

theorem alert_title_choice:
  "(request_body request = Inr raw
      \<and> decode_json raw = Inr (JObj kvs)
      \<and> title_under kvs ''series'' = Some t \<and> truthy t
      \<and> format_value str_of t = Inr title
      \<and> os_system (alert_command title) = Inr exit_status
      \<longrightarrow> alerts (do_POST decode_json str_of os_system request) = [alert_command title])
   \<and> (request_body request = Inr raw
      \<and> decode_json raw = Inr (JObj kvs)
      \<and> object_or_absent kvs ''series'' \<and> \<not> has_title kvs ''series''
      \<and> title_under kvs ''movie'' = Some t
      \<and> format_value str_of t = Inr title
      \<and> os_system (alert_command title) = Inr exit_status
      \<longrightarrow> alerts (do_POST decode_json str_of os_system request) = [alert_command title])
   \<and> (request_body request = Inr raw
      \<and> decode_json raw = Inr (JObj kvs)
      \<and> object_or_absent kvs ''series'' \<and> \<not> has_title kvs ''series''
      \<and> object_or_absent kvs ''movie'' \<and> title_under kvs ''movie'' = None
      \<and> os_system (alert_command ''Unknown'') = Inr exit_status
      \<longrightarrow> alerts (do_POST decode_json str_of os_system request) = [alert_command ''Unknown''])
   \<and> format_value str_of (JStr s) = Inr s
   \<and> (\<exists>pre. alert_command s = pre @ s @ '' is ready to watch!'' @ [CHR 0x22])"
proof (intro conjI impI)
  assume a: "request_body request = Inr raw
      \<and> decode_json raw = Inr (JObj kvs)
      \<and> title_under kvs ''series'' = Some t \<and> truthy t
      \<and> format_value str_of t = Inr title
      \<and> os_system (alert_command title) = Inr exit_status"
  then have "extract_title (JObj kvs) = Inr t"
    using extract_title_series by blast
  with a show "alerts (do_POST decode_json str_of os_system request) = [alert_command title]"
    using do_POST_run [of request raw decode_json "JObj kvs" t str_of title os_system exit_status]
    by (simp add: alerts_def)
next
  assume a: "request_body request = Inr raw
      \<and> decode_json raw = Inr (JObj kvs)
      \<and> object_or_absent kvs ''series'' \<and> \<not> has_title kvs ''series''
      \<and> title_under kvs ''movie'' = Some t
      \<and> format_value str_of t = Inr title
      \<and> os_system (alert_command title) = Inr exit_status"
  then have "extract_title (JObj kvs) = Inr t"
    using extract_title_movie by blast
  with a show "alerts (do_POST decode_json str_of os_system request) = [alert_command title]"
    using do_POST_run [of request raw decode_json "JObj kvs" t str_of title os_system exit_status]
    by (simp add: alerts_def)
next
  assume a: "request_body request = Inr raw
      \<and> decode_json raw = Inr (JObj kvs)
      \<and> object_or_absent kvs ''series'' \<and> \<not> has_title kvs ''series''
      \<and> object_or_absent kvs ''movie'' \<and> title_under kvs ''movie'' = None
      \<and> os_system (alert_command ''Unknown'') = Inr exit_status"
  then have "extract_title (JObj kvs) = Inr (JStr ''Unknown'')"
    using extract_title_unknown by blast
  with a show "alerts (do_POST decode_json str_of os_system request) = [alert_command ''Unknown'']"
    using do_POST_run [of request raw decode_json "JObj kvs" "JStr ''Unknown''" str_of
        "''Unknown''" os_system exit_status]
    by (simp add: alerts_def format_value_def)
next
  show "format_value str_of (JStr s) = Inr s"
    by (simp add: format_value_def)
next
  show "\<exists>pre. alert_command s = pre @ s @ '' is ready to watch!'' @ [CHR 0x22]"
    by (simp add: alert_command_def)
qed

theorem alert_title_choice_witness:
  "request_body post_show_a = Inr body_show_a
   \<and> sample_loads body_show_a =
       Inr (JObj [(''eventType'', JStr ''Download''), (''series'', JObj [(''title'', JStr ''Show A'')])])
   \<and> title_under [(''eventType'', JStr ''Download''), (''series'', JObj [(''title'', JStr ''Show A'')])]
        ''series'' = Some (JStr ''Show A'')
   \<and> truthy (JStr ''Show A'')
   \<and> format_value sample_str (JStr ''Show A'') = Inr ''Show A''
   \<and> shell_exit 0 (alert_command ''Show A'') = Inr 0
   \<and> alerts (do_POST sample_loads sample_str (shell_exit 0) post_show_a) = [alert_command ''Show A'']
   \<and> request_body post_film_b = Inr body_film_b
   \<and> sample_loads body_film_b =
       Inr (JObj [(''eventType'', JStr ''Download''), (''movie'', JObj [(''title'', JStr ''Film B'')])])
   \<and> object_or_absent [(''eventType'', JStr ''Download''), (''movie'', JObj [(''title'', JStr ''Film B'')])]
        ''series''
   \<and> \<not> has_title [(''eventType'', JStr ''Download''), (''movie'', JObj [(''title'', JStr ''Film B'')])]
        ''series''
   \<and> title_under [(''eventType'', JStr ''Download''), (''movie'', JObj [(''title'', JStr ''Film B'')])]
        ''movie'' = Some (JStr ''Film B'')
   \<and> format_value sample_str (JStr ''Film B'') = Inr ''Film B''
   \<and> shell_exit 0 (alert_command ''Film B'') = Inr 0
   \<and> alerts (do_POST sample_loads sample_str (shell_exit 0) post_film_b) = [alert_command ''Film B'']
   \<and> request_body post_test = Inr body_test
   \<and> sample_loads body_test = Inr (JObj [(''eventType'', JStr ''Test'')])
   \<and> object_or_absent [(''eventType'', JStr ''Test'')] ''series''
   \<and> \<not> has_title [(''eventType'', JStr ''Test'')] ''series''
   \<and> object_or_absent [(''eventType'', JStr ''Test'')] ''movie''
   \<and> title_under [(''eventType'', JStr ''Test'')] ''movie'' = None
   \<and> shell_exit 0 (alert_command ''Unknown'') = Inr 0
   \<and> alerts (do_POST sample_loads sample_str (shell_exit 0) post_test) = [alert_command ''Unknown'']"
proof -
  let ?a = "[(''eventType'', JStr ''Download''), (''series'', JObj [(''title'', JStr ''Show A'')])]"
  let ?b = "[(''eventType'', JStr ''Download''), (''movie'', JObj [(''title'', JStr ''Film B'')])]"
  let ?c = "[(''eventType'', JStr ''Test'')]"
  note l = sample_bodies(1,2,3)
  note d = sample_decoded(1,2,3)
  note x = sample_commands(1,2,3) [of 0]
  have a: "title_under ?a ''series'' = Some (JStr ''Show A'')" "truthy (JStr ''Show A'')"
    "format_value sample_str (JStr ''Show A'') = Inr ''Show A''"
    by (simp_all add: title_under_def format_value_def)
  have b: "object_or_absent ?b ''series''" "\<not> has_title ?b ''series''"
    "title_under ?b ''movie'' = Some (JStr ''Film B'')"
    "format_value sample_str (JStr ''Film B'') = Inr ''Film B''"
    by (simp_all add: title_under_def has_title_def object_or_absent_def format_value_def)
  have c: "object_or_absent ?c ''series''" "\<not> has_title ?c ''series''"
    "object_or_absent ?c ''movie''" "title_under ?c ''movie'' = None"
    by (simp_all add: title_under_def has_title_def object_or_absent_def)
  have 1: "alerts (do_POST sample_loads sample_str (shell_exit 0) post_show_a) = [alert_command ''Show A'']"
    using l d a x
      alert_title_choice [where request = post_show_a and raw = body_show_a
        and decode_json = sample_loads and kvs = ?a and t = "JStr ''Show A''"
        and str_of = sample_str and title = "''Show A''" and os_system = "shell_exit 0"
        and exit_status = 0]
    by blast
  have 2: "alerts (do_POST sample_loads sample_str (shell_exit 0) post_film_b) = [alert_command ''Film B'']"
    using l d b x
      alert_title_choice [where request = post_film_b and raw = body_film_b
        and decode_json = sample_loads and kvs = ?b and t = "JStr ''Film B''"
        and str_of = sample_str and title = "''Film B''" and os_system = "shell_exit 0"
        and exit_status = 0]
    by blast
  have 3: "alerts (do_POST sample_loads sample_str (shell_exit 0) post_test) = [alert_command ''Unknown'']"
    using l d c x
      alert_title_choice [where request = post_test and raw = body_test
        and decode_json = sample_loads and kvs = ?c and str_of = sample_str
        and os_system = "shell_exit 0" and exit_status = 0]
    by blast
  show ?thesis
    using l d a b c x 1 2 3 by blast
qed

text \<open>
  C8 as it is written fails when the series title is the empty string: the body
  contains a series title, yet the alert is run with the movie title, because
  \<open>or\<close> passes over every falsy value.
\<close>

theorem alert_empty_series_title_counterexample:
  "request_body post_empty_series = Inr body_empty_series
   \<and> sample_loads body_empty_series =
       Inr (JObj [(''eventType'', JStr ''Download''), (''series'', JObj [(''title'', JStr [])]),
                  (''movie'', JObj [(''title'', JStr ''Film B'')])])
   \<and> title_under [(''eventType'', JStr ''Download''), (''series'', JObj [(''title'', JStr [])]),
                   (''movie'', JObj [(''title'', JStr ''Film B'')])] ''series'' = Some (JStr [])
   \<and> alerts (do_POST sample_loads sample_str (shell_exit 0) post_empty_series)
       = [alert_command ''Film B'']
   \<and> alert_command ''Film B'' \<noteq> alert_command []"
proof -
  let ?e = "[(''eventType'', JStr ''Download''), (''series'', JObj [(''title'', JStr [])]),
             (''movie'', JObj [(''title'', JStr ''Film B'')])]"
  have t: "extract_title (JObj ?e) = Inr (JStr ''Film B'')"
    by (simp add: extract_title_def)
  have f: "format_value sample_str (JStr ''Film B'') = Inr ''Film B''"
    by (simp add: format_value_def)
  have "do_POST sample_loads sample_str (shell_exit 0) post_empty_series =
          (Inr \<lparr>status = 200, body = []\<rparr>, [(alert_command ''Film B'', 0)])"
    using sample_bodies(4) sample_decoded(4) t f sample_commands(2) [of 0]
    by (rule do_POST_run)
  then have "alerts (do_POST sample_loads sample_str (shell_exit 0) post_empty_series)
      = [alert_command ''Film B'']"
    by (simp add: alerts_def)
  moreover have "title_under ?e ''series'' = Some (JStr [])"
    by (simp add: title_under_def)
  moreover have "alert_command ''Film B'' \<noteq> alert_command []"
    by (simp add: alert_command_def)
  ultimately show ?thesis
    using sample_bodies(4) sample_decoded(4) by blast
qed

end
